theory Spec2Isabelle
  imports Main
begin

section \<open>Data model\<close>

text \<open>
  The tables of \<^verbatim>\<open>supabase/migrations/20241216000001_init.sql\<close> and the row
  types of \<^verbatim>\<open>common/_shared/types.ts\<close>. A table is the list of its rows, in
  the order the store keeps them. A \<^verbatim>\<open>TIMESTAMPTZ\<close> (an ISO string on the
  TypeScript side) is the number of milliseconds since the epoch it denotes; a
  nullable column is an \<open>option\<close>. \<^verbatim>\<open>attempt_count\<close> is a count: rows are
  inserted with 0 and every write of the column is the value read plus one, so it
  is a \<open>nat\<close>.
\<close>

type_synonym uuid = string
type_synonym timestamp = int
type_synonym Platform = string

definition PlatformSchema :: "Platform list" where
  "PlatformSchema =
     [''twitter'', ''linkedin'', ''instagram'', ''facebook'', ''threads'', ''tiktok'', ''youtube'']"

datatype PostStatus =
  P_draft | P_queued | P_publishing | P_published | P_partial | P_failed | P_cancelled

datatype TargetStatus =
  T_queued | T_publishing | T_sent | T_failed | T_retrying | T_cancelled

datatype json = JString string | JTime timestamp | JObject "(string \<times> json) list"

record DbSocialAccount =
  a_id :: uuid
  a_user_id :: uuid
  a_platform :: Platform
  a_access_token :: string

record DbScheduledPost =
  p_id :: uuid
  p_user_id :: uuid
  p_content_raw :: string
  p_scheduled_at :: timestamp
  p_timezone :: string
  p_status :: PostStatus
  p_media_manifest :: "uuid list"
  p_metadata :: "(string \<times> json) list"
  p_created_at :: timestamp
  p_updated_at :: timestamp
  p_published_at :: "timestamp option"

record DbScheduledPostTarget =
  t_id :: uuid
  t_post_id :: uuid
  t_platform :: Platform
  t_content_final :: string
  t_status :: TargetStatus
  t_attempt_count :: nat
  t_last_error :: "string option"
  t_last_attempt_at :: "timestamp option"
  t_platform_post_id :: "string option"
  t_platform_post_url :: "string option"
  t_created_at :: timestamp
  t_updated_at :: timestamp
  t_published_at :: "timestamp option"

record DbMediaAsset =
  m_id :: uuid
  m_user_id :: uuid

record database =
  social_accounts :: "DbSocialAccount list"
  scheduled_posts :: "DbScheduledPost list"
  scheduled_post_targets :: "DbScheduledPostTarget list"
  media_assets :: "DbMediaAsset list"

text \<open>
  \<^verbatim>\<open>.update(v).eq(...)\<close>: every row the filter selects is rewritten, the others
  are kept as they are, and the table keeps its order. The trigger
  \<^verbatim>\<open>trigger_set_updated_at\<close> runs on the rewritten rows only; it is written into
  each update below, reading the clock value of the request.
\<close>

definition update_where :: "('r \<Rightarrow> bool) \<Rightarrow> ('r \<Rightarrow> 'r) \<Rightarrow> 'r list \<Rightarrow> 'r list" where
  "update_where sel upd rows = map (\<lambda>r. if sel r then upd r else r) rows"

text \<open>\<^verbatim>\<open>.single()\<close>: the row when the filter selects exactly one, an error otherwise.\<close>

definition single :: "'r list \<Rightarrow> 'r option" where
  "single rows = (case rows of [r] \<Rightarrow> Some r | _ \<Rightarrow> None)"

section \<open>Backoff policy\<close>

definition MAX_RETRY_ATTEMPTS :: nat where
  "MAX_RETRY_ATTEMPTS = 3"

text \<open>
  \<^verbatim>\<open>getBackoffDelayMs\<close> of \<^verbatim>\<open>common/_shared/types.ts\<close>. The callers test the
  count against \<^verbatim>\<open>MAX_RETRY_ATTEMPTS\<close> first, so the delay is computed for counts
  below three only; with the millisecond values of \<^verbatim>\<open>Date\<close> every number involved is
  an integer that a double holds exactly.
\<close>

definition getBackoffDelayMs :: "nat \<Rightarrow> int" where
  "getBackoffDelayMs attemptCount = (let baseDelayMs = 60 * 1000 in baseDelayMs * 2 ^ attemptCount)"

text \<open>
  \<^verbatim>\<open>shouldRetryTarget\<close> of \<^verbatim>\<open>common/_shared/types.ts\<close>. The first argument is
  the value \<^verbatim>\<open>Date.now()\<close> reads. \<open>None\<close> is \<^verbatim>\<open>null\<close>; \<open>Some t\<close> is
  the serialisation of a \<^verbatim>\<open>TIMESTAMPTZ\<close>, a non-empty string that
  \<^verbatim>\<open>new Date(...).getTime()\<close> reads as \<open>t\<close>.
\<close>

definition shouldRetryTarget :: "timestamp \<Rightarrow> nat \<Rightarrow> timestamp option \<Rightarrow> bool" where
  "shouldRetryTarget now attemptCount lastAttemptAt =
     (if attemptCount \<ge> MAX_RETRY_ATTEMPTS then False
      else case lastAttemptAt of
        None \<Rightarrow> True
      | Some t \<Rightarrow>
          (let backoffMs = getBackoffDelayMs attemptCount;
               nextAttemptTime = t + backoffMs
           in now \<ge> nextAttemptTime))"

text \<open>\<^verbatim>\<open>shouldRetry\<close> of \<^verbatim>\<open>schedule-worker/index.ts\<close>.\<close>

definition shouldRetry :: "timestamp \<Rightarrow> nat \<Rightarrow> timestamp option \<Rightarrow> bool" where
  "shouldRetry now attemptCount lastAttemptAt =
     (if attemptCount \<ge> MAX_RETRY_ATTEMPTS then False
      else case lastAttemptAt of
        None \<Rightarrow> True
      | Some t \<Rightarrow>
          (let backoffMs = 60000 * 2 ^ attemptCount;
               nextAttempt = t + backoffMs
           in now \<ge> nextAttempt))"

section \<open>Status aggregator\<close>

text \<open>
  \<^verbatim>\<open>updatePostStatusIfComplete\<close> of \<^verbatim>\<open>scheduling/publish-post/index.ts\<close>. The
  store and the clock value \<^verbatim>\<open>new Date()\<close> reads are arguments; the store after
  the call is the result.
\<close>

definition hasPending :: "TargetStatus list \<Rightarrow> bool" where
  "hasPending statuses = list_ex (\<lambda>s. s \<in> set [T_queued, T_retrying, T_publishing]) statuses"

definition updatePostStatusIfComplete :: "database \<Rightarrow> uuid \<Rightarrow> timestamp \<Rightarrow> database" where
  "updatePostStatusIfComplete db postId now =
     (let targets = filter (\<lambda>t. t_post_id t = postId) (scheduled_post_targets db)
      in if length targets = 0 then db
         else
           let statuses = map t_status targets
           in if hasPending statuses then db
              else
                let sentCount = length (filter (\<lambda>s. s = T_sent) statuses);
                    failedCount = length (filter (\<lambda>s. s = T_failed) statuses);
                    newPostStatus =
                      (if sentCount = length statuses then P_published
                       else if failedCount = length statuses then P_failed
                       else if sentCount > 0 then P_partial
                       else P_failed)
                in db\<lparr>scheduled_posts :=
                        update_where (\<lambda>p. p_id p = postId)
                          (\<lambda>p. p\<lparr>p_status := newPostStatus,
                                  p_published_at := (if sentCount > 0 then Some now else None),
                                  p_updated_at := now\<rparr>)
                          (scheduled_posts db)\<rparr>)"

text \<open>\<^verbatim>\<open>updatePostStatus\<close> of \<^verbatim>\<open>publish-post/index.ts\<close>.\<close>

definition updatePostStatus :: "database \<Rightarrow> uuid \<Rightarrow> timestamp \<Rightarrow> database" where
  "updatePostStatus db postId now =
     (let targets = filter (\<lambda>t. t_post_id t = postId) (scheduled_post_targets db)
      in if length targets = 0 then db
         else
           let statuses = map t_status targets
           in if hasPending statuses then db
              else
                let sent = length (filter (\<lambda>s. s = T_sent) statuses);
                    failed = length (filter (\<lambda>s. s = T_failed) statuses);
                    newStatus =
                      (if sent = length statuses then P_published
                       else if failed = length statuses then P_failed
                       else if sent > 0 then P_partial
                       else P_failed)
                in db\<lparr>scheduled_posts :=
                        update_where (\<lambda>p. p_id p = postId)
                          (\<lambda>p. p\<lparr>p_status := newStatus,
                                  p_published_at := (if sent > 0 then Some now else None),
                                  p_updated_at := now\<rparr>)
                          (scheduled_posts db)\<rparr>)"

section \<open>Delivery executor\<close>

text \<open>
  The handlers of \<^verbatim>\<open>scheduling/publish-post/index.ts\<close> and
  \<^verbatim>\<open>publish-post/index.ts\<close>, from the point where the request has passed the
  checks of its method, internal key and body (CORS, authentication and schema validation
  are outside the scheduling core). The arguments are the store, the validated
  \<^verbatim>\<open>targetId\<close>, the clock value of the request and the result of
  \<^verbatim>\<open>publishToPlatform\<close>, the external publish capability. Every query is answered
  by the store; a handler returns the store it leaves behind and its HTTP response.
\<close>

record PublishResult =
  r_success :: bool
  r_postId :: "string option"
  r_postUrl :: "string option"
  r_error :: "string option"

text \<open>
  The JSON envelope of a publish response. \<open>ErrorBody message code\<close> is an envelope with
  \<^verbatim>\<open>success: false\<close>; the other two carry \<^verbatim>\<open>success: true\<close>: \<open>SentBody\<close> is
  \<^verbatim>\<open>{targetId, status: "sent", platformPostId, platformPostUrl}\<close> and
  \<open>AttemptFailedBody\<close> is \<^verbatim>\<open>{targetId, status, error, attemptCount, willRetry}\<close>.
\<close>

datatype publish_body =
    ErrorBody string "string option"
  | SentBody uuid "string option" "string option"
  | AttemptFailedBody uuid TargetStatus "string option" nat bool

record 'b response =
  http_status :: nat
  http_body :: 'b

fun body_success :: "publish_body \<Rightarrow> bool" where
  "body_success (ErrorBody _ _) = False"
| "body_success (SentBody _ _ _) = True"
| "body_success (AttemptFailedBody _ _ _ _ _) = True"

fun status_name :: "TargetStatus \<Rightarrow> string" where
  "status_name T_queued = ''queued''"
| "status_name T_publishing = ''publishing''"
| "status_name T_sent = ''sent''"
| "status_name T_failed = ''failed''"
| "status_name T_retrying = ''retrying''"
| "status_name T_cancelled = ''cancelled''"

text \<open>
  A key whose value is \<^verbatim>\<open>undefined\<close> is dropped when the update is serialised, so
  the column keeps its value; \<^verbatim>\<open>null\<close> and a string are written.
\<close>

definition write_defined :: "'a option \<Rightarrow> 'a option \<Rightarrow> 'a option" where
  "write_defined v old = (case v of None \<Rightarrow> old | Some x \<Rightarrow> Some x)"

text \<open>
  The three stretches of \<^verbatim>\<open>scheduling/publish-post/index.ts\<close> between which
  another request can reach the store. First (lines 111 to 215): the read of the Target
  with its parent post, the status and attempt checks, the lookup of the account and,
  when there is none, the write that marks the Target failed. A parent that is missing
  makes \<^verbatim>\<open>postTarget.scheduled_posts.user_id\<close> throw, which the handler's
  \<^verbatim>\<open>catch\<close> answers with 500.
\<close>

definition scheduling_publish_read ::
  "database \<Rightarrow> uuid \<Rightarrow> timestamp \<Rightarrow>
   database \<times> (publish_body response + DbScheduledPostTarget \<times> DbScheduledPost \<times> DbSocialAccount)"
where
  "scheduling_publish_read db targetId now =
     (case single (filter (\<lambda>t. t_id t = targetId) (scheduled_post_targets db)) of
        None \<Rightarrow> (db, Inl \<lparr>http_status = 404, http_body = ErrorBody ''Target not found'' (Some ''NOT_FOUND'')\<rparr>)
      | Some postTarget \<Rightarrow>
          if t_status postTarget \<notin> set [T_queued, T_retrying] then
            (db, Inl \<lparr>http_status = 400,
                      http_body = ErrorBody (''Target cannot be published with status: ''
                                          @ status_name (t_status postTarget))
                                       (Some ''INVALID_STATUS'')\<rparr>)
          else if t_attempt_count postTarget \<ge> MAX_RETRY_ATTEMPTS then
            (db, Inl \<lparr>http_status = 400,
                      http_body = ErrorBody ''Max retry attempts (3) exceeded''
                                       (Some ''MAX_RETRIES_EXCEEDED'')\<rparr>)
          else
            (case single (filter (\<lambda>p. p_id p = t_post_id postTarget) (scheduled_posts db)) of
               None \<Rightarrow> (db, Inl \<lparr>http_status = 500,
                                 http_body = ErrorBody ''Internal server error'' (Some ''INTERNAL_ERROR'')\<rparr>)
             | Some post \<Rightarrow>
                 (case single (filter (\<lambda>a. a_user_id a = p_user_id post
                                              \<and> a_platform a = t_platform postTarget)
                                 (social_accounts db)) of
                    None \<Rightarrow>
                      (db\<lparr>scheduled_post_targets :=
                            update_where (\<lambda>t. t_id t = targetId)
                              (\<lambda>t. t\<lparr>t_status := T_failed,
                                      t_last_error := Some ''No connected social account for this platform'',
                                      t_attempt_count := t_attempt_count postTarget + 1,
                                      t_last_attempt_at := Some now,
                                      t_updated_at := now\<rparr>)
                              (scheduled_post_targets db)\<rparr>,
                       Inl \<lparr>http_status = 400,
                            http_body = ErrorBody ''No connected social account for platform''
                                             (Some ''NO_ACCOUNT'')\<rparr>)
                  | Some account \<Rightarrow> (db, Inr (postTarget, post, account)))))"

text \<open>Second (lines 224 to 228): the write that marks the Target publishing.\<close>

definition scheduling_publish_mark :: "database \<Rightarrow> uuid \<Rightarrow> timestamp \<Rightarrow> database" where
  "scheduling_publish_mark db targetId now =
     db\<lparr>scheduled_post_targets :=
          update_where (\<lambda>t. t_id t = targetId)
            (\<lambda>t. t\<lparr>t_status := T_publishing, t_updated_at := now\<rparr>)
            (scheduled_post_targets db)\<rparr>"

text \<open>
  Third (lines 237 to 319): the write of the outcome, from the Target as it was read in
  the first stretch, the call of the aggregator and the response.
\<close>

definition scheduling_publish_record ::
  "database \<Rightarrow> uuid \<Rightarrow> DbScheduledPostTarget \<Rightarrow> DbScheduledPost \<Rightarrow> timestamp \<Rightarrow> PublishResult \<Rightarrow>
   database \<times> publish_body response"
where
  "scheduling_publish_record db targetId postTarget post now result =
     (if r_success result then
        (let db1 = db\<lparr>scheduled_post_targets :=
                        update_where (\<lambda>t. t_id t = targetId)
                          (\<lambda>t. t\<lparr>t_status := T_sent,
                                  t_platform_post_id := write_defined (r_postId result) (t_platform_post_id t),
                                  t_platform_post_url := write_defined (r_postUrl result) (t_platform_post_url t),
                                  t_attempt_count := t_attempt_count postTarget + 1,
                                  t_last_attempt_at := Some now,
                                  t_published_at := Some now,
                                  t_last_error := None,
                                  t_updated_at := now\<rparr>)
                          (scheduled_post_targets db)\<rparr>;
             db2 = updatePostStatusIfComplete db1 (p_id post) now
         in (db2, \<lparr>http_status = 200,
                   http_body = SentBody targetId (r_postId result) (r_postUrl result)\<rparr>))
      else
        (let newAttemptCount = t_attempt_count postTarget + 1;
             shouldRetry = newAttemptCount < MAX_RETRY_ATTEMPTS;
             newStatus = (if shouldRetry then T_retrying else T_failed);
             db1 = db\<lparr>scheduled_post_targets :=
                        update_where (\<lambda>t. t_id t = targetId)
                          (\<lambda>t. t\<lparr>t_status := newStatus,
                                  t_last_error := write_defined (r_error result) (t_last_error t),
                                  t_attempt_count := newAttemptCount,
                                  t_last_attempt_at := Some now,
                                  t_updated_at := now\<rparr>)
                          (scheduled_post_targets db)\<rparr>;
             db2 = updatePostStatusIfComplete db1 (p_id post) now
         in (db2, \<lparr>http_status = 200,
                   http_body = AttemptFailedBody targetId newStatus (r_error result)
                            newAttemptCount shouldRetry\<rparr>)))"

text \<open>The handler runs the three stretches one after the other.\<close>

definition scheduling_publish_post ::
  "database \<Rightarrow> uuid \<Rightarrow> timestamp \<Rightarrow> PublishResult \<Rightarrow> database \<times> publish_body response"
where
  "scheduling_publish_post db targetId now result =
     (case scheduling_publish_read db targetId now of
        (db', Inl resp) \<Rightarrow> (db', resp)
      | (db', Inr (postTarget, post, account)) \<Rightarrow>
          scheduling_publish_record (scheduling_publish_mark db' targetId now)
            targetId postTarget post now result)"

text \<open>
  The same three stretches of \<^verbatim>\<open>publish-post/index.ts\<close>: lines 113 to 156,
  lines 158 to 162 and lines 171 to 220. Its envelopes carry no error code.
\<close>

definition publish_read ::
  "database \<Rightarrow> uuid \<Rightarrow> timestamp \<Rightarrow>
   database \<times> (publish_body response + DbScheduledPostTarget \<times> DbScheduledPost \<times> DbSocialAccount)"
where
  "publish_read db targetId now =
     (case single (filter (\<lambda>t. t_id t = targetId) (scheduled_post_targets db)) of
        None \<Rightarrow> (db, Inl \<lparr>http_status = 404, http_body = ErrorBody ''Target not found'' None\<rparr>)
      | Some target \<Rightarrow>
          if t_status target \<notin> set [T_queued, T_retrying] then
            (db, Inl \<lparr>http_status = 400,
                      http_body = ErrorBody (''Target status is '' @ status_name (t_status target)
                                          @ '', cannot publish'') None\<rparr>)
          else if t_attempt_count target \<ge> MAX_RETRY_ATTEMPTS then
            (db, Inl \<lparr>http_status = 400, http_body = ErrorBody ''Max retries exceeded'' None\<rparr>)
          else
            (case single (filter (\<lambda>p. p_id p = t_post_id target) (scheduled_posts db)) of
               None \<Rightarrow> (db, Inl \<lparr>http_status = 500, http_body = ErrorBody ''Internal server error'' None\<rparr>)
             | Some post \<Rightarrow>
                 (case single (filter (\<lambda>a. a_user_id a = p_user_id post
                                              \<and> a_platform a = t_platform target)
                                 (social_accounts db)) of
                    None \<Rightarrow>
                      (db\<lparr>scheduled_post_targets :=
                            update_where (\<lambda>t. t_id t = targetId)
                              (\<lambda>t. t\<lparr>t_status := T_failed,
                                      t_last_error := Some ''No connected account'',
                                      t_attempt_count := t_attempt_count target + 1,
                                      t_last_attempt_at := Some now,
                                      t_updated_at := now\<rparr>)
                              (scheduled_post_targets db)\<rparr>,
                       Inl \<lparr>http_status = 400, http_body = ErrorBody ''No connected account'' None\<rparr>)
                  | Some account \<Rightarrow> (db, Inr (target, post, account)))))"

definition publish_mark :: "database \<Rightarrow> uuid \<Rightarrow> timestamp \<Rightarrow> database" where
  "publish_mark db targetId now =
     db\<lparr>scheduled_post_targets :=
          update_where (\<lambda>t. t_id t = targetId)
            (\<lambda>t. t\<lparr>t_status := T_publishing, t_updated_at := now\<rparr>)
            (scheduled_post_targets db)\<rparr>"

definition publish_record ::
  "database \<Rightarrow> uuid \<Rightarrow> DbScheduledPostTarget \<Rightarrow> DbScheduledPost \<Rightarrow> timestamp \<Rightarrow> PublishResult \<Rightarrow>
   database \<times> publish_body response"
where
  "publish_record db targetId target post now result =
     (let newAttempt = t_attempt_count target + 1
      in if r_success result then
           (let db1 = db\<lparr>scheduled_post_targets :=
                           update_where (\<lambda>t. t_id t = targetId)
                             (\<lambda>t. t\<lparr>t_status := T_sent,
                                     t_platform_post_id := write_defined (r_postId result) (t_platform_post_id t),
                                     t_platform_post_url := write_defined (r_postUrl result) (t_platform_post_url t),
                                     t_attempt_count := newAttempt,
                                     t_last_attempt_at := Some now,
                                     t_published_at := Some now,
                                     t_last_error := None,
                                     t_updated_at := now\<rparr>)
                             (scheduled_post_targets db)\<rparr>;
                db2 = updatePostStatus db1 (p_id post) now
            in (db2, \<lparr>http_status = 200,
                      http_body = SentBody targetId (r_postId result) (r_postUrl result)\<rparr>))
         else
           (let newStatus = (if newAttempt < MAX_RETRY_ATTEMPTS then T_retrying else T_failed);
                db1 = db\<lparr>scheduled_post_targets :=
                           update_where (\<lambda>t. t_id t = targetId)
                             (\<lambda>t. t\<lparr>t_status := newStatus,
                                     t_last_error := write_defined (r_error result) (t_last_error t),
                                     t_attempt_count := newAttempt,
                                     t_last_attempt_at := Some now,
                                     t_updated_at := now\<rparr>)
                             (scheduled_post_targets db)\<rparr>;
                db2 = updatePostStatus db1 (p_id post) now
            in (db2, \<lparr>http_status = 200,
                      http_body = AttemptFailedBody targetId newStatus (r_error result)
                               newAttempt (newStatus = T_retrying)\<rparr>)))"

definition publish_post ::
  "database \<Rightarrow> uuid \<Rightarrow> timestamp \<Rightarrow> PublishResult \<Rightarrow> database \<times> publish_body response"
where
  "publish_post db targetId now result =
     (case publish_read db targetId now of
        (db', Inl resp) \<Rightarrow> (db', resp)
      | (db', Inr (target, post, account)) \<Rightarrow>
          publish_record (publish_mark db' targetId now) targetId target post now result)"

text \<open>
  Two attempts on one Target, each moving through its three stretches while the other
  may move in between. An attempt keeps what it read in its first stretch.
\<close>

datatype attempt_state =
    Started
  | Rejected "publish_body response"
  | Checked DbScheduledPostTarget DbScheduledPost
  | Marked DbScheduledPostTarget DbScheduledPost
  | Finished "publish_body response"

fun scheduling_attempt_step ::
  "uuid \<Rightarrow> timestamp \<Rightarrow> PublishResult \<Rightarrow> database \<times> attempt_state \<Rightarrow> database \<times> attempt_state"
where
  "scheduling_attempt_step targetId now result (db, Started) =
     (case scheduling_publish_read db targetId now of
        (db', Inl resp) \<Rightarrow> (db', Rejected resp)
      | (db', Inr (postTarget, post, account)) \<Rightarrow> (db', Checked postTarget post))"
| "scheduling_attempt_step targetId now result (db, Checked postTarget post) =
     (scheduling_publish_mark db targetId now, Marked postTarget post)"
| "scheduling_attempt_step targetId now result (db, Marked postTarget post) =
     (case scheduling_publish_record db targetId postTarget post now result of
        (db', resp) \<Rightarrow> (db', Finished resp))"
| "scheduling_attempt_step targetId now result (db, Rejected resp) = (db, Rejected resp)"
| "scheduling_attempt_step targetId now result (db, Finished resp) = (db, Finished resp)"

fun attempt_step ::
  "uuid \<Rightarrow> timestamp \<Rightarrow> PublishResult \<Rightarrow> database \<times> attempt_state \<Rightarrow> database \<times> attempt_state"
where
  "attempt_step targetId now result (db, Started) =
     (case publish_read db targetId now of
        (db', Inl resp) \<Rightarrow> (db', Rejected resp)
      | (db', Inr (target, post, account)) \<Rightarrow> (db', Checked target post))"
| "attempt_step targetId now result (db, Checked target post) =
     (publish_mark db targetId now, Marked target post)"
| "attempt_step targetId now result (db, Marked target post) =
     (case publish_record db targetId target post now result of
        (db', resp) \<Rightarrow> (db', Finished resp))"
| "attempt_step targetId now result (db, Rejected resp) = (db, Rejected resp)"
| "attempt_step targetId now result (db, Finished resp) = (db, Finished resp)"

text \<open>
  A schedule says which attempt moves next (\<open>True\<close>: the first, \<open>False\<close>: the second).
  The step function is that of either handler.
\<close>

fun interleave ::
  "(database \<times> attempt_state \<Rightarrow> database \<times> attempt_state) \<Rightarrow> bool list \<Rightarrow>
   database \<times> attempt_state \<times> attempt_state \<Rightarrow> database \<times> attempt_state \<times> attempt_state"
where
  "interleave step [] c = c"
| "interleave step (True # sched) (db, a, b) =
     (case step (db, a) of (db', a') \<Rightarrow> interleave step sched (db', a', b))"
| "interleave step (False # sched) (db, a, b) =
     (case step (db, b) of (db', b') \<Rightarrow> interleave step sched (db', a, b'))"

section \<open>Cancellation handler\<close>

text \<open>
  The handlers of \<^verbatim>\<open>scheduling/cancel-scheduled-post/index.ts\<close> and
  \<^verbatim>\<open>cancel-scheduled-post/index.ts\<close>, from the point where the requester is
  authenticated as \<open>userId\<close> and the body is validated. \<open>CancelOk postId n\<close> is the
  envelope \<^verbatim>\<open>{postId, status: "cancelled", targetsUpdated: n}\<close>. The store carries
  out both updates.
\<close>

datatype cancel_body =
    CancelError string "string option"
  | CancelOk uuid nat

fun post_status_name :: "PostStatus \<Rightarrow> string" where
  "post_status_name P_draft = ''draft''"
| "post_status_name P_queued = ''queued''"
| "post_status_name P_publishing = ''publishing''"
| "post_status_name P_published = ''published''"
| "post_status_name P_partial = ''partial''"
| "post_status_name P_failed = ''failed''"
| "post_status_name P_cancelled = ''cancelled''"

text \<open>
  \<^verbatim>\<open>{...obj, key: value}\<close>: a key the object has keeps its place and takes the new
  value, a new key goes last.
\<close>

fun obj_set :: "string \<Rightarrow> json \<Rightarrow> (string \<times> json) list \<Rightarrow> (string \<times> json) list" where
  "obj_set k v [] = [(k, v)]"
| "obj_set k v ((k', v') # kvs) = (if k' = k then (k, v) # kvs else (k', v') # obj_set k v kvs)"

definition scheduling_cancel_scheduled_post ::
  "database \<Rightarrow> uuid \<Rightarrow> uuid \<Rightarrow> timestamp \<Rightarrow> database \<times> cancel_body response"
where
  "scheduling_cancel_scheduled_post db userId postId now =
     (case single (filter (\<lambda>p. p_id p = postId) (scheduled_posts db)) of
        None \<Rightarrow> (db, \<lparr>http_status = 404, http_body = CancelError ''Post not found'' (Some ''NOT_FOUND'')\<rparr>)
      | Some scheduledPost \<Rightarrow>
          if p_user_id scheduledPost \<noteq> userId then
            (db, \<lparr>http_status = 403, http_body = CancelError ''Forbidden'' (Some ''FORBIDDEN'')\<rparr>)
          else if p_status scheduledPost \<in> set [P_published, P_cancelled] then
            (db, \<lparr>http_status = 400,
                  http_body = CancelError (''Cannot cancel post with status: ''
                                        @ post_status_name (p_status scheduledPost))
                                     (Some ''INVALID_STATUS'')\<rparr>)
          else
            (let db1 = db\<lparr>scheduled_posts :=
                           update_where (\<lambda>p. p_id p = postId)
                             (\<lambda>p. p\<lparr>p_status := P_cancelled,
                                     p_metadata :=
                                       obj_set ''cancelledBy'' (JString userId)
                                         (obj_set ''cancelledAt'' (JTime now) (p_metadata scheduledPost)),
                                     p_updated_at := now\<rparr>)
                             (scheduled_posts db)\<rparr>;
                 cancellable = (\<lambda>t. t_post_id t = postId
                                      \<and> t_status t \<in> set [T_queued, T_retrying, T_publishing]);
                 updatedTargets = filter cancellable (scheduled_post_targets db1);
                 db2 = db1\<lparr>scheduled_post_targets :=
                             update_where cancellable
                               (\<lambda>t. t\<lparr>t_status := T_cancelled,
                                       t_last_error := Some ''Post cancelled by user'',
                                       t_updated_at := now\<rparr>)
                               (scheduled_post_targets db1)\<rparr>
             in (db2, \<lparr>http_status = 200, http_body = CancelOk postId (length updatedTargets)\<rparr>)))"

definition cancel_scheduled_post ::
  "database \<Rightarrow> uuid \<Rightarrow> uuid \<Rightarrow> timestamp \<Rightarrow> database \<times> cancel_body response"
where
  "cancel_scheduled_post db userId postId now =
     (case single (filter (\<lambda>p. p_id p = postId) (scheduled_posts db)) of
        None \<Rightarrow> (db, \<lparr>http_status = 404, http_body = CancelError ''Post not found'' None\<rparr>)
      | Some post \<Rightarrow>
          if p_user_id post \<noteq> userId then
            (db, \<lparr>http_status = 403, http_body = CancelError ''Forbidden'' None\<rparr>)
          else if p_status post \<in> set [P_published, P_cancelled] then
            (db, \<lparr>http_status = 400,
                  http_body = CancelError (''Cannot cancel post with status: ''
                                        @ post_status_name (p_status post)) None\<rparr>)
          else
            (let db1 = db\<lparr>scheduled_posts :=
                           update_where (\<lambda>p. p_id p = postId)
                             (\<lambda>p. p\<lparr>p_status := P_cancelled, p_updated_at := now\<rparr>)
                             (scheduled_posts db)\<rparr>;
                 cancellable = (\<lambda>t. t_post_id t = postId
                                      \<and> t_status t \<in> set [T_queued, T_retrying, T_publishing]);
                 updatedTargets = filter cancellable (scheduled_post_targets db1);
                 db2 = db1\<lparr>scheduled_post_targets :=
                             update_where cancellable
                               (\<lambda>t. t\<lparr>t_status := T_cancelled,
                                       t_last_error := Some ''Post cancelled by user'',
                                       t_updated_at := now\<rparr>)
                               (scheduled_post_targets db1)\<rparr>
             in (db2, \<lparr>http_status = 200, http_body = CancelOk postId (length updatedTargets)\<rparr>)))"

section \<open>Creation entry point\<close>

text \<open>
  The handlers of \<^verbatim>\<open>scheduling/create-scheduled-post/index.ts\<close> and
  \<^verbatim>\<open>create-scheduled-post/index.ts\<close>, from the point where the requester is
  authenticated as \<open>userId\<close>. The request is the parsed JSON body: \<open>scheduledAt\<close> is
  the instant its ISO string denotes, \<open>timezone\<close> has its default filled in, an optional
  field that is absent is \<open>None\<close>, and \<open>variants\<close> lists the keys of the object with their
  values. The message of a rejection by the schema, which zod builds from its issues, is
  cut down to its fixed part; the store answers the selects and carries out the delete.
\<close>

record CreateScheduledPostRequest =
  contentRaw :: string
  platforms :: "Platform list"
  scheduledAt :: timestamp
  timezone :: string
  mediaAssetIds :: "uuid list option"
  variants :: "(string \<times> string) list option"

datatype create_body =
    CreateError string "string option"
  | Created DbScheduledPost "DbScheduledPostTarget list"

text \<open>
  The inserts, with the constraints of the schema. An insert is one statement: it adds
  all its rows or, when a constraint rejects one of them or the store reports any other
  error (\<open>fault\<close>), none, and then the client gets an error. The constraints are the
  primary keys, \<^verbatim>\<open>CHECK (char_length(content_raw) > 0)\<close>, the foreign key
  \<^verbatim>\<open>post_id\<close>, the enum \<^verbatim>\<open>platform_type\<close> and \<^verbatim>\<open>UNIQUE(post_id, platform)\<close>.
\<close>

definition insert_post :: "bool \<Rightarrow> DbScheduledPost \<Rightarrow> database \<Rightarrow> database option" where
  "insert_post fault row db =
     (if fault \<or> p_id row \<in> set (map p_id (scheduled_posts db)) \<or> length (p_content_raw row) = 0
      then None
      else Some (db\<lparr>scheduled_posts := scheduled_posts db @ [row]\<rparr>))"

definition insert_targets :: "bool \<Rightarrow> DbScheduledPostTarget list \<Rightarrow> database \<Rightarrow> database option" where
  "insert_targets fault rows db =
     (let old = scheduled_post_targets db;
          pair = (\<lambda>t. (t_post_id t, t_platform t))
      in if fault
            \<or> \<not> distinct (map t_id rows)
            \<or> list_ex (\<lambda>r. t_id r \<in> set (map t_id old)) rows
            \<or> \<not> distinct (map pair rows)
            \<or> list_ex (\<lambda>r. pair r \<in> set (map pair old)) rows
            \<or> list_ex (\<lambda>r. t_platform r \<notin> set PlatformSchema) rows
            \<or> list_ex (\<lambda>r. t_post_id r \<notin> set (map p_id (scheduled_posts db))) rows
         then None
         else Some (db\<lparr>scheduled_post_targets := old @ rows\<rparr>))"

text \<open>
  \<^verbatim>\<open>.delete().eq("id", id)\<close> on \<^verbatim>\<open>scheduled_posts\<close>; the Targets of a deleted
  post go with it (\<^verbatim>\<open>ON DELETE CASCADE\<close>).
\<close>

definition delete_post :: "uuid \<Rightarrow> database \<Rightarrow> database" where
  "delete_post postId db =
     db\<lparr>scheduled_posts := filter (\<lambda>p. p_id p \<noteq> postId) (scheduled_posts db),
        scheduled_post_targets := filter (\<lambda>t. t_post_id t \<noteq> postId) (scheduled_post_targets db)\<rparr>"

text \<open>\<^verbatim>\<open>body.variants?.[platform] ?? body.contentRaw\<close>.\<close>

definition content_final_for :: "CreateScheduledPostRequest \<Rightarrow> Platform \<Rightarrow> string" where
  "content_final_for body platform =
     (case variants body of
        None \<Rightarrow> contentRaw body
      | Some vs \<Rightarrow> (case map_of vs platform of None \<Rightarrow> contentRaw body | Some v \<Rightarrow> v))"

text \<open>
  The rows of \<^verbatim>\<open>targetInserts\<close>, with the columns the insert leaves to their
  defaults. \<open>gen\<close> gives the values of \<^verbatim>\<open>gen_random_uuid()\<close>: \<open>gen 0\<close> for the post
  and \<open>gen (Suc i)\<close> for the Target of the \<open>i\<close>-th platform.
\<close>

definition targetInserts ::
  "(nat \<Rightarrow> uuid) \<Rightarrow> CreateScheduledPostRequest \<Rightarrow> uuid \<Rightarrow> timestamp \<Rightarrow> DbScheduledPostTarget list"
where
  "targetInserts gen body postId now =
     map (\<lambda>(i, platform).
            \<lparr>t_id = gen (Suc i), t_post_id = postId, t_platform = platform,
             t_content_final = content_final_for body platform,
             t_status = T_queued, t_attempt_count = 0, t_last_error = None,
             t_last_attempt_at = None, t_platform_post_id = None, t_platform_post_url = None,
             t_created_at = now, t_updated_at = now, t_published_at = None\<rparr>)
         (enumerate 0 (platforms body))"

text \<open>
  \<^verbatim>\<open>CreateScheduledPostRequestSchema\<close> of \<^verbatim>\<open>types.ts\<close>, on the parsed body (the
  formats of the date and of the asset ids are read off by the parse).
\<close>

definition CreateScheduledPostRequestSchema :: "CreateScheduledPostRequest \<Rightarrow> bool" where
  "CreateScheduledPostRequestSchema body \<longleftrightarrow>
     1 \<le> length (contentRaw body) \<and> length (contentRaw body) \<le> 50000
     \<and> 1 \<le> length (platforms body)
     \<and> list_all (\<lambda>p. p \<in> set PlatformSchema) (platforms body)"

fun join :: "string \<Rightarrow> string list \<Rightarrow> string" where
  "join sep [] = []"
| "join sep [x] = x"
| "join sep (x # y # ys) = x @ sep @ join sep (y # ys)"

definition scheduling_create_scheduled_post ::
  "(nat \<Rightarrow> uuid) \<Rightarrow> bool \<Rightarrow> bool \<Rightarrow> database \<Rightarrow> uuid \<Rightarrow> CreateScheduledPostRequest \<Rightarrow> timestamp \<Rightarrow>
   database \<times> create_body response"
where
  "scheduling_create_scheduled_post gen postFault targetsFault db userId body now =
     (if \<not> CreateScheduledPostRequestSchema body then
        (db, \<lparr>http_status = 400, http_body = CreateError ''Validation failed'' (Some ''VALIDATION_ERROR'')\<rparr>)
      else if scheduledAt body \<le> now then
        (db, \<lparr>http_status = 400,
              http_body = CreateError ''Scheduled time must be in the future''
                                 (Some ''INVALID_SCHEDULE_TIME'')\<rparr>)
      else
        let accounts = filter (\<lambda>a. a_user_id a = userId \<and> a_platform a \<in> set (platforms body))
                         (social_accounts db);
            connectedPlatforms = set (map a_platform accounts);
            missingPlatforms = filter (\<lambda>p. p \<notin> connectedPlatforms) (platforms body)
        in if length missingPlatforms > 0 then
             (db, \<lparr>http_status = 400,
                   http_body = CreateError (''Missing social account connections for: ''
                                         @ join '', '' missingPlatforms)
                                      (Some ''MISSING_CONNECTIONS'')\<rparr>)
           else
             let mediaManifest = (case mediaAssetIds body of None \<Rightarrow> [] | Some ids \<Rightarrow> ids);
                 missingAssets =
                   (case mediaAssetIds body of
                      None \<Rightarrow> []
                    | Some ids \<Rightarrow>
                        let assets = filter (\<lambda>m. m_user_id m = userId \<and> m_id m \<in> set ids)
                                       (media_assets db);
                            foundIds = set (map m_id assets)
                        in filter (\<lambda>i. i \<notin> foundIds) ids)
             in if length missingAssets > 0 then
                  (db, \<lparr>http_status = 400,
                        http_body = CreateError ''Some media assets not found or not owned by user''
                                           (Some ''INVALID_MEDIA_ASSETS'')\<rparr>)
                else
                  let createdPost =
                        \<lparr>p_id = gen 0, p_user_id = userId, p_content_raw = contentRaw body,
                         p_scheduled_at = scheduledAt body, p_timezone = timezone body,
                         p_status = P_queued, p_media_manifest = mediaManifest,
                         p_metadata =
                           [(''variants'',
                             JObject (map (\<lambda>(k, v). (k, JString v))
                                        (case variants body of None \<Rightarrow> [] | Some vs \<Rightarrow> vs)))],
                         p_created_at = now, p_updated_at = now, p_published_at = None\<rparr>
                  in case insert_post postFault createdPost db of
                       None \<Rightarrow>
                         (db, \<lparr>http_status = 500,
                               http_body = CreateError ''Internal server error'' (Some ''INTERNAL_ERROR'')\<rparr>)
                     | Some db1 \<Rightarrow>
                         let targets = targetInserts gen body (p_id createdPost) now
                         in case insert_targets targetsFault targets db1 of
                              None \<Rightarrow>
                                (delete_post (p_id createdPost) db1,
                                 \<lparr>http_status = 500,
                                  http_body = CreateError ''Internal server error'' (Some ''INTERNAL_ERROR'')\<rparr>)
                            | Some db2 \<Rightarrow>
                                (db2, \<lparr>http_status = 201, http_body = Created createdPost targets\<rparr>))"

text \<open>\<^verbatim>\<open>CreatePostSchema\<close> of \<^verbatim>\<open>create-scheduled-post/index.ts\<close>.\<close>

definition CreatePostSchema :: "CreateScheduledPostRequest \<Rightarrow> bool" where
  "CreatePostSchema body \<longleftrightarrow>
     1 \<le> length (contentRaw body) \<and> 1 \<le> length (timezone body) \<and> 1 \<le> length (platforms body)"

definition create_scheduled_post ::
  "(nat \<Rightarrow> uuid) \<Rightarrow> bool \<Rightarrow> bool \<Rightarrow> database \<Rightarrow> uuid \<Rightarrow> CreateScheduledPostRequest \<Rightarrow> timestamp \<Rightarrow>
   database \<times> create_body response"
where
  "create_scheduled_post gen postFault targetsFault db userId body now =
     (if \<not> CreatePostSchema body then
        (db, \<lparr>http_status = 400, http_body = CreateError ''Invalid request body'' None\<rparr>)
      else if scheduledAt body \<le> now then
        (db, \<lparr>http_status = 400, http_body = CreateError ''scheduledAt must be in the future'' None\<rparr>)
      else
        let post =
              \<lparr>p_id = gen 0, p_user_id = userId, p_content_raw = contentRaw body,
               p_scheduled_at = scheduledAt body, p_timezone = timezone body,
               p_status = P_queued, p_media_manifest = [], p_metadata = [],
               p_created_at = now, p_updated_at = now, p_published_at = None\<rparr>
        in case insert_post postFault post db of
             None \<Rightarrow> (db, \<lparr>http_status = 500, http_body = CreateError ''Failed to create post'' None\<rparr>)
           | Some db1 \<Rightarrow>
               let targets = targetInserts gen body (p_id post) now
               in case insert_targets targetsFault targets db1 of
                    None \<Rightarrow>
                      (delete_post (p_id post) db1,
                       \<lparr>http_status = 500, http_body = CreateError ''Failed to create targets'' None\<rparr>)
                  | Some db2 \<Rightarrow> (db2, \<lparr>http_status = 201, http_body = Created post targets\<rparr>))"

section \<open>Scheduling worker\<close>

text \<open>
  The handlers of \<^verbatim>\<open>scheduling/schedule-worker/index.ts\<close> and
  \<^verbatim>\<open>schedule-worker/index.ts\<close>, from the point where the caller is authorised.
  A row of either query is a Target with its parent post embedded
  (\<^verbatim>\<open>scheduled_posts!inner\<close>): Targets without a parent are left out. The store
  answers both queries and carries out the update; one clock value stands for the
  readings of the clock within the cycle.
\<close>

definition BATCH_SIZE :: nat where
  "BATCH_SIZE = 50"

type_synonym TargetWithPost = "DbScheduledPostTarget \<times> DbScheduledPost"

definition targets_with_post :: "database \<Rightarrow> TargetWithPost list" where
  "targets_with_post db =
     concat (map (\<lambda>t. map (\<lambda>p. (t, p)) (filter (\<lambda>p. p_id p = t_post_id t) (scheduled_posts db)))
               (scheduled_post_targets db))"

text \<open>
  The query for fresh work of \<^verbatim>\<open>scheduling/schedule-worker/index.ts\<close> (lines 56 to
  70): filters, \<^verbatim>\<open>.order("scheduled_posts(scheduled_at)", { ascending: true })\<close>, then
  \<^verbatim>\<open>.limit(BATCH_SIZE)\<close>. Rows with equal \<^verbatim>\<open>scheduled_at\<close> stay in the order of
  the table.
\<close>

definition scheduling_queuedTargets :: "database \<Rightarrow> timestamp \<Rightarrow> TargetWithPost list" where
  "scheduling_queuedTargets db now =
     take BATCH_SIZE
       (sort_key (\<lambda>(t, p). p_scheduled_at p)
          (filter (\<lambda>(t, p). t_status t = T_queued \<and> p_status p = P_queued \<and> p_scheduled_at p \<le> now)
             (targets_with_post db)))"

text \<open>
  The query for fresh work of \<^verbatim>\<open>schedule-worker/index.ts\<close> (lines 70 to 76): the
  same filters and limit, and no \<^verbatim>\<open>.order\<close>; the rows come in the order the store
  has them.
\<close>

definition queuedTargets :: "database \<Rightarrow> timestamp \<Rightarrow> TargetWithPost list" where
  "queuedTargets db now =
     take BATCH_SIZE
       (filter (\<lambda>(t, p). t_status t = T_queued \<and> p_status p = P_queued \<and> p_scheduled_at p \<le> now)
          (targets_with_post db))"

text \<open>The query for retries, the same in both files.\<close>

definition retryingTargets :: "database \<Rightarrow> TargetWithPost list" where
  "retryingTargets db =
     take BATCH_SIZE
       (filter (\<lambda>(t, p). t_status t = T_retrying \<and> t_attempt_count t < MAX_RETRY_ATTEMPTS
                          \<and> p_status p \<in> set [P_queued, P_publishing, P_partial])
          (targets_with_post db))"

text \<open>
  What the store and the network give one \<^verbatim>\<open>fetch\<close> of the publish endpoint: the
  clock value and the result of the publish capability inside that request, and whether
  the call comes back. \<open>Refused\<close>: the request never reaches the endpoint and
  \<^verbatim>\<open>fetch\<close> throws; \<open>Dropped\<close>: the endpoint handles the request and the response is
  lost or unreadable, so \<^verbatim>\<open>fetch\<close> or \<^verbatim>\<open>res.json()\<close> throws.
\<close>

datatype transport = Delivered | Refused string | Dropped string

record attempt_env =
  e_now :: timestamp
  e_result :: PublishResult
  e_transport :: transport

record result_entry =
  re_targetId :: uuid
  re_platform :: Platform
  re_success :: bool
  re_error :: "string option"

definition response_ok :: "'b response \<Rightarrow> bool" where
  "response_ok res \<longleftrightarrow> 200 \<le> http_status res \<and> http_status res \<le> 299"

text \<open>
  The body of the loop of \<^verbatim>\<open>scheduling/schedule-worker/index.ts\<close> (lines 148 to
  206). The endpoint's envelope has its error under \<^verbatim>\<open>error.message\<close>.
\<close>

definition scheduling_process_target ::
  "(uuid \<Rightarrow> attempt_env) \<Rightarrow> database \<times> result_entry list \<Rightarrow> TargetWithPost \<Rightarrow>
   database \<times> result_entry list"
where
  "scheduling_process_target env acc tp =
     (case (acc, tp) of
        ((db, results), (target, post)) \<Rightarrow>
          let e = env (t_id target)
          in case e_transport e of
               Refused errorMessage \<Rightarrow>
                 (db, results @ [\<lparr>re_targetId = t_id target, re_platform = t_platform target,
                                   re_success = False, re_error = Some errorMessage\<rparr>])
             | Dropped errorMessage \<Rightarrow>
                 (fst (scheduling_publish_post db (t_id target) (e_now e) (e_result e)),
                  results @ [\<lparr>re_targetId = t_id target, re_platform = t_platform target,
                               re_success = False, re_error = Some errorMessage\<rparr>])
             | Delivered \<Rightarrow>
                 (case scheduling_publish_post db (t_id target) (e_now e) (e_result e) of
                    (db', response) \<Rightarrow>
                      if response_ok response \<and> body_success (http_body response) then
                        (db', results @ [\<lparr>re_targetId = t_id target, re_platform = t_platform target,
                                          re_success = True, re_error = None\<rparr>])
                      else
                        (db', results @ [\<lparr>re_targetId = t_id target, re_platform = t_platform target,
                                          re_success = False,
                                          re_error = Some (case http_body response of
                                                          ErrorBody message code \<Rightarrow> message
                                                        | _ \<Rightarrow> ''Unknown error'')\<rparr>])))"

text \<open>
  The body of the loop of \<^verbatim>\<open>schedule-worker/index.ts\<close> (lines 129 to 156). The
  endpoint's envelope has its error, a string, under \<^verbatim>\<open>error\<close>.
\<close>

definition process_target ::
  "(uuid \<Rightarrow> attempt_env) \<Rightarrow> database \<times> result_entry list \<Rightarrow> TargetWithPost \<Rightarrow>
   database \<times> result_entry list"
where
  "process_target env acc tp =
     (case (acc, tp) of
        ((db, results), (target, post)) \<Rightarrow>
          let e = env (t_id target)
          in case e_transport e of
               Refused message \<Rightarrow>
                 (db, results @ [\<lparr>re_targetId = t_id target, re_platform = t_platform target,
                                   re_success = False, re_error = Some message\<rparr>])
             | Dropped message \<Rightarrow>
                 (fst (publish_post db (t_id target) (e_now e) (e_result e)),
                  results @ [\<lparr>re_targetId = t_id target, re_platform = t_platform target,
                               re_success = False, re_error = Some message\<rparr>])
             | Delivered \<Rightarrow>
                 (case publish_post db (t_id target) (e_now e) (e_result e) of
                    (db', res) \<Rightarrow>
                      (db', results @ [\<lparr>re_targetId = t_id target, re_platform = t_platform target,
                                        re_success = (response_ok res \<and> body_success (http_body res)),
                                        re_error = (case http_body res of
                                                   ErrorBody message code \<Rightarrow> Some message
                                                 | SentBody _ _ _ \<Rightarrow> None
                                                 | AttemptFailedBody _ _ err _ _ \<Rightarrow> err)\<rparr>])))"

text \<open>
  The report of a cycle: \<^verbatim>\<open>processed\<close>, \<^verbatim>\<open>succeeded\<close>, \<^verbatim>\<open>failed\<close> and
  \<^verbatim>\<open>results\<close>. Both handlers answer 200 with it. The other fields of the
  envelopes (\<^verbatim>\<open>message\<close>, \<^verbatim>\<open>queued\<close>, \<^verbatim>\<open>retries\<close>, \<^verbatim>\<open>postsAffected\<close>,
  \<^verbatim>\<open>durationMs\<close>) are left out.
\<close>

record cycle_report =
  c_processed :: nat
  c_succeeded :: nat
  c_failed :: nat
  c_results :: "result_entry list"

text \<open>
  The update that claims the parent posts (\<^verbatim>\<open>.in("id", ids).eq("status", "queued")\<close>).
\<close>

definition claim_posts :: "uuid list \<Rightarrow> timestamp \<Rightarrow> database \<Rightarrow> database" where
  "claim_posts postIds now db =
     db\<lparr>scheduled_posts :=
          update_where (\<lambda>p. p_id p \<in> set postIds \<and> p_status p = P_queued)
            (\<lambda>p. p\<lparr>p_status := P_publishing, p_updated_at := now\<rparr>)
            (scheduled_posts db)\<rparr>"

definition scheduling_schedule_worker ::
  "(uuid \<Rightarrow> attempt_env) \<Rightarrow> database \<Rightarrow> timestamp \<Rightarrow> database \<times> cycle_report response"
where
  "scheduling_schedule_worker env db now =
     (let queued = scheduling_queuedTargets db now;
          eligibleRetries =
            filter (\<lambda>(target, post).
                      shouldRetryTarget now (t_attempt_count target) (t_last_attempt_at target))
              (retryingTargets db);
          allTargets = queued @ eligibleRetries
      in if length allTargets = 0 then
           (db, \<lparr>http_status = 200,
                 http_body = \<lparr>c_processed = 0, c_succeeded = 0, c_failed = 0, c_results = []\<rparr>\<rparr>)
         else
           let uniquePostIds = remdups (map (\<lambda>(t, p). p_id p) allTargets);
               db1 = claim_posts uniquePostIds now db;
               (db2, results) = foldl (scheduling_process_target env) (db1, []) allTargets;
               successCount = length (filter (\<lambda>r. re_success r) results);
               failureCount = length (filter (\<lambda>r. \<not> re_success r) results)
           in (db2, \<lparr>http_status = 200,
                     http_body = \<lparr>c_processed = length results, c_succeeded = successCount,
                                  c_failed = failureCount, c_results = results\<rparr>\<rparr>))"

definition schedule_worker ::
  "(uuid \<Rightarrow> attempt_env) \<Rightarrow> database \<Rightarrow> timestamp \<Rightarrow> database \<times> cycle_report response"
where
  "schedule_worker env db now =
     (let queued = queuedTargets db now;
          eligibleRetries =
            filter (\<lambda>(t, p). shouldRetry now (t_attempt_count t) (t_last_attempt_at t))
              (retryingTargets db);
          allTargets = queued @ eligibleRetries
      in if length allTargets = 0 then
           (db, \<lparr>http_status = 200,
                 http_body = \<lparr>c_processed = 0, c_succeeded = 0, c_failed = 0, c_results = []\<rparr>\<rparr>)
         else
           let postIds = remdups (map (\<lambda>(t, p). p_id p) allTargets);
               db1 = claim_posts postIds now db;
               (db2, results) = foldl (process_target env) (db1, []) allTargets;
               succeeded = length (filter (\<lambda>r. re_success r) results);
               failed = length (filter (\<lambda>r. \<not> re_success r) results)
           in (db2, \<lparr>http_status = 200,
                     http_body = \<lparr>c_processed = length results, c_succeeded = succeeded,
                                  c_failed = failed, c_results = results\<rparr>\<rparr>))"

section \<open>Vocabulary of the statements and example stores\<close>

text \<open>
  One user, one post and its Targets, used where a statement is evaluated on a concrete
  store. \<open>status_written db db' postId s\<close>: between \<open>db\<close> and \<open>db'\<close> the posts with id
  \<open>postId\<close> got status \<open>s\<close> and no other post changed its status.
\<close>

definition ex_post :: "PostStatus \<Rightarrow> DbScheduledPost" where
  "ex_post st =
     \<lparr>p_id = ''post-1'', p_user_id = ''user-1'', p_content_raw = ''hello'',
      p_scheduled_at = 1000, p_timezone = ''UTC'', p_status = st, p_media_manifest = [],
      p_metadata = [], p_created_at = 0, p_updated_at = 0, p_published_at = None\<rparr>"

definition ex_target :: "uuid \<Rightarrow> Platform \<Rightarrow> TargetStatus \<Rightarrow> nat \<Rightarrow> DbScheduledPostTarget" where
  "ex_target i pl st n =
     \<lparr>t_id = i, t_post_id = ''post-1'', t_platform = pl, t_content_final = ''hello'',
      t_status = st, t_attempt_count = n, t_last_error = None, t_last_attempt_at = None,
      t_platform_post_id = None, t_platform_post_url = None, t_created_at = 0,
      t_updated_at = 0, t_published_at = None\<rparr>"

definition ex_account :: "Platform \<Rightarrow> DbSocialAccount" where
  "ex_account pl =
     \<lparr>a_id = ''account-'' @ pl, a_user_id = ''user-1'', a_platform = pl, a_access_token = ''token''\<rparr>"

definition ex_db :: "DbSocialAccount list \<Rightarrow> PostStatus \<Rightarrow> DbScheduledPostTarget list \<Rightarrow> database" where
  "ex_db accounts st targets =
     \<lparr>social_accounts = accounts, scheduled_posts = [ex_post st],
      scheduled_post_targets = targets, media_assets = []\<rparr>"

definition status_written :: "database \<Rightarrow> database \<Rightarrow> uuid \<Rightarrow> PostStatus \<Rightarrow> bool" where
  "status_written db db' postId s \<longleftrightarrow>
     map p_status (scheduled_posts db')
       = map (\<lambda>p. if p_id p = postId then s else p_status p) (scheduled_posts db)"

text \<open>
  \<open>attempt_ready db targetId tg post\<close>: the store has exactly one Target \<open>tg\<close> with id
  \<open>targetId\<close>, it is queued or retrying with fewer than three attempts, and \<open>post\<close> is
  its parent. \<open>credential db post tg\<close> is the account of the post's owner for the
  Target's platform, when there is exactly one.
\<close>

definition attempt_ready :: "database \<Rightarrow> uuid \<Rightarrow> DbScheduledPostTarget \<Rightarrow> DbScheduledPost \<Rightarrow> bool" where
  "attempt_ready db targetId tg post \<longleftrightarrow>
     filter (\<lambda>t. t_id t = targetId) (scheduled_post_targets db) = [tg]
     \<and> (t_status tg = T_queued \<or> t_status tg = T_retrying)
     \<and> t_attempt_count tg < 3
     \<and> filter (\<lambda>p. p_id p = t_post_id tg) (scheduled_posts db) = [post]"

definition credential :: "database \<Rightarrow> DbScheduledPost \<Rightarrow> DbScheduledPostTarget \<Rightarrow> DbSocialAccount option" where
  "credential db post tg =
     single (filter (\<lambda>a. a_user_id a = p_user_id post \<and> a_platform a = t_platform tg)
               (social_accounts db))"

text \<open>
  \<open>outcome_write tg now result\<close> is the write of the outcome to a row, from the Target
  \<open>tg\<close> as the attempt read it: the write of the third stretch after that of the second.
  \<open>attempt_recorded db db' targetId tg now\<close>: in \<open>db'\<close> the Target \<open>targetId\<close> has one
  attempt more than \<open>tg\<close> and its last attempt at \<open>now\<close>, and the other Targets are as in
  \<open>db\<close>. \<open>counts_step db db'\<close>: the Targets of \<open>db'\<close> are those of \<open>db\<close>, row by row,
  each with the same attempt count or one more.
\<close>

definition outcome_write ::
  "DbScheduledPostTarget \<Rightarrow> timestamp \<Rightarrow> PublishResult \<Rightarrow> DbScheduledPostTarget \<Rightarrow> DbScheduledPostTarget"
where
  "outcome_write tg now result t =
     (if r_success result then
        t\<lparr>t_status := T_sent,
          t_platform_post_id := write_defined (r_postId result) (t_platform_post_id t),
          t_platform_post_url := write_defined (r_postUrl result) (t_platform_post_url t),
          t_attempt_count := t_attempt_count tg + 1,
          t_last_attempt_at := Some now,
          t_published_at := Some now,
          t_last_error := None,
          t_updated_at := now\<rparr>
      else
        t\<lparr>t_status := (if t_attempt_count tg + 1 < 3 then T_retrying else T_failed),
          t_last_error := write_defined (r_error result) (t_last_error t),
          t_attempt_count := t_attempt_count tg + 1,
          t_last_attempt_at := Some now,
          t_updated_at := now\<rparr>)"


definition counts_step :: "database \<Rightarrow> database \<Rightarrow> bool" where
  "counts_step db db' \<longleftrightarrow>
     list_all2 (\<lambda>t t'. t_id t' = t_id t
                  \<and> (t_attempt_count t' = t_attempt_count t \<or> t_attempt_count t' = t_attempt_count t + 1))
       (scheduled_post_targets db) (scheduled_post_targets db')"


text \<open>Two results of the publish capability.\<close>

definition ex_failure :: PublishResult where
  "ex_failure =
     \<lparr>r_success = False, r_postId = None, r_postUrl = None,
      r_error = Some ''twitter API error: Rate limit exceeded''\<rparr>"

definition ex_success :: PublishResult where
  "ex_success =
     \<lparr>r_success = True, r_postId = Some ''0123456789ab'',
      r_postUrl = Some ''https://twitter.com/i/status/0123456789ab'', r_error = None\<rparr>"

text \<open>A network on which every call of the publish endpoint fails at the platform.\<close>

definition ex_env :: "uuid \<Rightarrow> attempt_env" where
  "ex_env i = \<lparr>e_now = 6000, e_result = ex_failure, e_transport = Delivered\<rparr>"

text \<open>
  \<open>cancellable postId\<close> selects the Targets that the cancellation of \<open>postId\<close> rewrites,
  \<open>cancel_write now\<close> is what it writes to them, and \<open>settled postId\<close> selects the Targets
  of the post that are sent or failed.
\<close>

definition cancellable :: "uuid \<Rightarrow> DbScheduledPostTarget \<Rightarrow> bool" where
  "cancellable postId t \<longleftrightarrow>
     t_post_id t = postId \<and> (t_status t = T_queued \<or> t_status t = T_retrying \<or> t_status t = T_publishing)"

definition cancel_write :: "timestamp \<Rightarrow> DbScheduledPostTarget \<Rightarrow> DbScheduledPostTarget" where
  "cancel_write now t =
     t\<lparr>t_status := T_cancelled, t_last_error := Some ''Post cancelled by user'', t_updated_at := now\<rparr>"

definition settled :: "uuid \<Rightarrow> DbScheduledPostTarget \<Rightarrow> bool" where
  "settled postId t \<longleftrightarrow> t_post_id t = postId \<and> (t_status t = T_sent \<or> t_status t = T_failed)"

text \<open>
  \<open>references_kept db\<close>: every Target of the store has its parent post in the store (the
  foreign key of \<^verbatim>\<open>scheduled_post_targets.post_id\<close>). \<open>ex_gen\<close> is a supply of ids,
  \<open>ex_request ps\<close> a request for the platforms \<open>ps\<close>, and \<open>ex_late_first\<close> a store
  with two due posts, the one that is due later first in both tables.
\<close>

definition references_kept :: "database \<Rightarrow> bool" where
  "references_kept db \<longleftrightarrow>
     list_all (\<lambda>t. t_post_id t \<in> set (map p_id (scheduled_posts db))) (scheduled_post_targets db)"

definition ex_gen :: "nat \<Rightarrow> uuid" where
  "ex_gen n = ''new-'' @ replicate n (CHR ''i'')"

definition ex_request :: "Platform list \<Rightarrow> CreateScheduledPostRequest" where
  "ex_request ps =
     \<lparr>contentRaw = ''hello'', platforms = ps, scheduledAt = 9000, timezone = ''UTC'',
      mediaAssetIds = None, variants = None\<rparr>"

definition ex_late_first :: database where
  "ex_late_first =
     \<lparr>social_accounts = [ex_account ''twitter''],
      scheduled_posts = [(ex_post P_queued)\<lparr>p_id := ''post-2'', p_scheduled_at := 2000\<rparr>,
                         ex_post P_queued],
      scheduled_post_targets = [(ex_target ''t2'' ''twitter'' T_queued 0)\<lparr>t_post_id := ''post-2''\<rparr>,
                                ex_target ''t1'' ''twitter'' T_queued 0],
      media_assets = []\<rparr>"

text \<open>
  \<open>all_or_nothing db body out\<close>: the outcome \<open>out\<close> of a creation request on the store
  \<open>db\<close> is either the response 201 with the store holding, beyond what it held, the new
  queued post and one queued Target of that post per requested platform, in the order of
  the request; or an error response with the store exactly as it was.
\<close>

definition all_or_nothing ::
  "database \<Rightarrow> CreateScheduledPostRequest \<Rightarrow> database \<times> create_body response \<Rightarrow> bool"
where
  "all_or_nothing db body out =
     (case out of
        (db', resp) \<Rightarrow>
          (case http_body resp of
             Created post targets \<Rightarrow>
               http_status resp = 201
               \<and> db' = db\<lparr>scheduled_posts := scheduled_posts db @ [post],
                           scheduled_post_targets := scheduled_post_targets db @ targets\<rparr>
               \<and> p_status post = P_queued
               \<and> map t_platform targets = platforms body
               \<and> list_all (\<lambda>t. t_post_id t = p_id post \<and> t_status t = T_queued) targets
           | CreateError message code \<Rightarrow> http_status resp \<noteq> 201 \<and> db' = db))"

text \<open>
  \<open>scheduling_allTargets db now\<close> and \<open>allTargets db now\<close> are the lists
  \<^verbatim>\<open>allTargets\<close> of the two workers, the Targets a cycle processes in their order, and
  \<open>claimed db now tps\<close> is the store after the update that moves their queued parent
  posts to publishing, on which the loop starts.
\<close>

definition scheduling_allTargets :: "database \<Rightarrow> timestamp \<Rightarrow> TargetWithPost list" where
  "scheduling_allTargets db now =
     scheduling_queuedTargets db now
     @ filter (\<lambda>(target, post).
                 shouldRetryTarget now (t_attempt_count target) (t_last_attempt_at target))
         (retryingTargets db)"

definition allTargets :: "database \<Rightarrow> timestamp \<Rightarrow> TargetWithPost list" where
  "allTargets db now =
     queuedTargets db now
     @ filter (\<lambda>(t, p). shouldRetry now (t_attempt_count t) (t_last_attempt_at t))
         (retryingTargets db)"

definition claimed :: "database \<Rightarrow> timestamp \<Rightarrow> TargetWithPost list \<Rightarrow> database" where
  "claimed db now tps = claim_posts (remdups (map (\<lambda>(t, p). p_id p) tps)) now db"

section \<open>Verification\<close>

subsection \<open>Backoff policy\<close>

text \<open>
  C1. For every attempt count \<open>a\<close> and last attempt \<open>l\<close>, \<^verbatim>\<open>shouldRetryTarget\<close> and
  \<^verbatim>\<open>shouldRetry\<close> return false when \<open>a \<ge> 3\<close>; return true when \<open>a < 3\<close> and there
  is no last attempt; and otherwise, with \<open>a < 3\<close> and last attempt at \<open>t\<close>, return true
  exactly when \<open>now \<ge> t + 60000 * 2 ^ a\<close> milliseconds: false one millisecond before
  that instant and true at it.
\<close>

theorem C1_backoff:
  "(3 \<le> a \<longrightarrow> \<not> shouldRetryTarget now a l \<and> \<not> shouldRetry now a l)
   \<and> (a < 3 \<longrightarrow> shouldRetryTarget now a None \<and> shouldRetry now a None)
   \<and> (a < 3 \<longrightarrow>
        (shouldRetryTarget now a (Some t) \<longleftrightarrow> now \<ge> t + 60000 * 2 ^ a)
      \<and> (shouldRetry now a (Some t) \<longleftrightarrow> now \<ge> t + 60000 * 2 ^ a)
      \<and> \<not> shouldRetryTarget (t + 60000 * 2 ^ a - 1) a (Some t)
      \<and> \<not> shouldRetry (t + 60000 * 2 ^ a - 1) a (Some t)
      \<and> shouldRetryTarget (t + 60000 * 2 ^ a) a (Some t)
      \<and> shouldRetry (t + 60000 * 2 ^ a) a (Some t))"
  by (simp add: shouldRetryTarget_def shouldRetry_def getBackoffDelayMs_def
      MAX_RETRY_ATTEMPTS_def Let_def)

theorem C1_backoff_witness:
  "\<not> shouldRetryTarget 0 3 None \<and> \<not> shouldRetry 0 3 None
   \<and> shouldRetryTarget 0 2 None \<and> shouldRetry 0 2 None
   \<and> \<not> shouldRetryTarget 1119999 1 (Some 1000000) \<and> \<not> shouldRetry 1119999 1 (Some 1000000)
   \<and> shouldRetryTarget 1120000 1 (Some 1000000) \<and> shouldRetry 1120000 1 (Some 1000000)"
  using C1_backoff [of 3 0 None 0] C1_backoff [of 2 0 None 0]
    C1_backoff [of 1 0 None 1000000]
  by simp

subsection \<open>Status aggregator\<close>

lemma updatePostStatusIfComplete_eq:
  "updatePostStatusIfComplete db postId now = updatePostStatus db postId now"
  by (simp add: updatePostStatusIfComplete_def updatePostStatus_def Let_def)

lemma length_filter_all: "length (filter P xs) = length xs \<longleftrightarrow> (\<forall>x\<in>set xs. P x)"
proof (induction xs)
  case Nil
  then show ?case by simp
next
  case (Cons x xs)
  have le: "length (filter P xs) \<le> length xs" by simp
  show ?case
  proof (cases "P x")
    case True
    with Cons show ?thesis by simp
  next
    case False
    from le have "length (filter P xs) \<noteq> Suc (length xs)" by arith
    with False show ?thesis by simp
  qed
qed

lemma length_filter_pos: "0 < length (filter P xs) \<longleftrightarrow> (\<exists>x\<in>set xs. P x)"
  by (simp add: filter_empty_conv)

lemma hasPending_iff:
  "hasPending statuses \<longleftrightarrow> (\<exists>s\<in>set statuses. s = T_queued \<or> s = T_publishing \<or> s = T_retrying)"
  by (auto simp: hasPending_def list_ex_iff)

lemma status_choice:
  assumes "statuses \<noteq> []"
  shows "(if length (filter (\<lambda>s. s = T_sent) statuses) = length statuses then P_published
          else if length (filter (\<lambda>s. s = T_failed) statuses) = length statuses then P_failed
          else if length (filter (\<lambda>s. s = T_sent) statuses) > 0 then P_partial
          else P_failed)
       = (if \<forall>s\<in>set statuses. s = T_sent then P_published
          else if \<forall>s\<in>set statuses. s \<noteq> T_sent then P_failed
          else P_partial)"
proof -
  obtain x where x: "x \<in> set statuses" using assms by (cases statuses) auto
  show ?thesis
    using x unfolding length_filter_all length_filter_pos by auto
qed

lemma updatePostStatus_pending:
  "hasPending (map t_status (filter (\<lambda>t. t_post_id t = postId) (scheduled_post_targets db)))
   \<Longrightarrow> updatePostStatus db postId now = db"
  by (simp add: updatePostStatus_def Let_def)

lemma updatePostStatus_terminal:
  assumes "statuses = map t_status (filter (\<lambda>t. t_post_id t = postId) (scheduled_post_targets db))"
    and "statuses \<noteq> []" and "\<not> hasPending statuses"
  shows "updatePostStatus db postId now =
    db\<lparr>scheduled_posts :=
        update_where (\<lambda>p. p_id p = postId)
          (\<lambda>p. p\<lparr>p_status :=
                    (if \<forall>s\<in>set statuses. s = T_sent then P_published
                     else if \<forall>s\<in>set statuses. s \<noteq> T_sent then P_failed
                     else P_partial),
                  p_published_at := (if \<exists>s\<in>set statuses. s = T_sent then Some now else None),
                  p_updated_at := now\<rparr>)
          (scheduled_posts db)\<rparr>"
proof -
  have ne: "filter (\<lambda>t. t_post_id t = postId) (scheduled_post_targets db) \<noteq> []"
    using assms(1,2) by auto
  show ?thesis
    using assms(3) ne status_choice [OF assms(2)]
    unfolding updatePostStatus_def Let_def assms(1) [symmetric] length_filter_pos
    by (simp add: assms(1))
qed

lemma status_written_update:
  "status_written db
     (db\<lparr>scheduled_posts :=
          update_where (\<lambda>p. p_id p = postId) (\<lambda>p. p\<lparr>p_status := s, p_published_at := a, p_updated_at := b\<rparr>)
            (scheduled_posts db)\<rparr>) postId s"
  by (simp add: status_written_def update_where_def)

lemma updatePostStatus_written:
  assumes "statuses = map t_status (filter (\<lambda>t. t_post_id t = postId) (scheduled_post_targets db))"
    and "statuses \<noteq> []" and "\<not> hasPending statuses"
  shows "status_written db (updatePostStatus db postId now) postId
           (if \<forall>s\<in>set statuses. s = T_sent then P_published
            else if \<forall>s\<in>set statuses. s \<noteq> T_sent then P_failed
            else P_partial)"
  unfolding updatePostStatus_terminal [OF assms]
  by (rule status_written_update)

text \<open>
  C2. For a post with at least one Target, the aggregator (\<^verbatim>\<open>updatePostStatus\<close> and
  \<^verbatim>\<open>updatePostStatusIfComplete\<close>) leaves the store as it is when some Target is
  queued, publishing or retrying; and when every Target is sent, failed or cancelled it
  writes to the post the status published if all are sent, failed if none is sent, and
  partial if at least one is sent and at least one is not.
\<close>

theorem C2_aggregator:
  assumes "statuses = map t_status (filter (\<lambda>t. t_post_id t = postId) (scheduled_post_targets db))"
    and "statuses \<noteq> []"
  shows "((\<exists>s\<in>set statuses. s = T_queued \<or> s = T_publishing \<or> s = T_retrying) \<longrightarrow>
            updatePostStatus db postId now = db \<and> updatePostStatusIfComplete db postId now = db)
       \<and> ((\<forall>s\<in>set statuses. s = T_sent \<or> s = T_failed \<or> s = T_cancelled) \<longrightarrow>
            ((\<forall>s\<in>set statuses. s = T_sent) \<longrightarrow>
               status_written db (updatePostStatus db postId now) postId P_published
             \<and> status_written db (updatePostStatusIfComplete db postId now) postId P_published)
          \<and> ((\<forall>s\<in>set statuses. s \<noteq> T_sent) \<longrightarrow>
               status_written db (updatePostStatus db postId now) postId P_failed
             \<and> status_written db (updatePostStatusIfComplete db postId now) postId P_failed)
          \<and> ((\<exists>s\<in>set statuses. s = T_sent) \<and> (\<exists>s\<in>set statuses. s \<noteq> T_sent) \<longrightarrow>
               status_written db (updatePostStatus db postId now) postId P_partial
             \<and> status_written db (updatePostStatusIfComplete db postId now) postId P_partial))"
proof -
  obtain x where x: "x \<in> set statuses" using assms(2) by (cases statuses) auto
  have pending: "updatePostStatus db postId now = db"
    if "\<exists>s\<in>set statuses. s = T_queued \<or> s = T_publishing \<or> s = T_retrying"
    using that updatePostStatus_pending [of postId db now] assms(1)
    by (simp add: hasPending_iff)
  have terminal: "status_written db (updatePostStatus db postId now) postId
           (if \<forall>s\<in>set statuses. s = T_sent then P_published
            else if \<forall>s\<in>set statuses. s \<noteq> T_sent then P_failed
            else P_partial)"
    if "\<forall>s\<in>set statuses. s = T_sent \<or> s = T_failed \<or> s = T_cancelled"
  proof -
    from that have "\<not> hasPending statuses" by (auto simp: hasPending_iff)
    then show ?thesis by (rule updatePostStatus_written [OF assms])
  qed
  have none_not_all: "\<not> (\<forall>s\<in>set statuses. s = T_sent)" if "\<forall>s\<in>set statuses. s \<noteq> T_sent"
    using that x by auto
  show ?thesis
    unfolding updatePostStatusIfComplete_eq
  proof (intro conjI impI)
    assume "\<exists>s\<in>set statuses. s = T_queued \<or> s = T_publishing \<or> s = T_retrying"
    then show "updatePostStatus db postId now = db" "updatePostStatus db postId now = db"
      by (rule pending)+
  next
    assume t: "\<forall>s\<in>set statuses. s = T_sent \<or> s = T_failed \<or> s = T_cancelled"
      and a: "\<forall>s\<in>set statuses. s = T_sent"
    from terminal [OF t] a
    show "status_written db (updatePostStatus db postId now) postId P_published"
      "status_written db (updatePostStatus db postId now) postId P_published"
      by simp_all
  next
    assume t: "\<forall>s\<in>set statuses. s = T_sent \<or> s = T_failed \<or> s = T_cancelled"
      and a: "\<forall>s\<in>set statuses. s \<noteq> T_sent"
    from terminal [OF t] a none_not_all [OF a]
    show "status_written db (updatePostStatus db postId now) postId P_failed"
      "status_written db (updatePostStatus db postId now) postId P_failed"
      by simp_all
  next
    assume t: "\<forall>s\<in>set statuses. s = T_sent \<or> s = T_failed \<or> s = T_cancelled"
      and a: "(\<exists>s\<in>set statuses. s = T_sent) \<and> (\<exists>s\<in>set statuses. s \<noteq> T_sent)"
    from a have b: "\<not> (\<forall>s\<in>set statuses. s = T_sent)" "\<not> (\<forall>s\<in>set statuses. s \<noteq> T_sent)"
      by auto
    from terminal [OF t] b
    show "status_written db (updatePostStatus db postId now) postId P_partial"
      "status_written db (updatePostStatus db postId now) postId P_partial"
      by simp_all
  qed
qed

theorem C2_aggregator_witness:
  "status_written (ex_db [] P_publishing [ex_target ''t1'' ''twitter'' T_sent 1, ex_target ''t2'' ''linkedin'' T_failed 3])
     (updatePostStatus (ex_db [] P_publishing [ex_target ''t1'' ''twitter'' T_sent 1, ex_target ''t2'' ''linkedin'' T_failed 3]) ''post-1'' 5000)
     ''post-1'' P_partial
   \<and> updatePostStatusIfComplete (ex_db [] P_publishing [ex_target ''t1'' ''twitter'' T_sent 1, ex_target ''t2'' ''linkedin'' T_queued 0]) ''post-1'' 5000
      = ex_db [] P_publishing [ex_target ''t1'' ''twitter'' T_sent 1, ex_target ''t2'' ''linkedin'' T_queued 0]"
  using C2_aggregator [of "[T_sent, T_failed]" "''post-1''"
      "ex_db [] P_publishing [ex_target ''t1'' ''twitter'' T_sent 1, ex_target ''t2'' ''linkedin'' T_failed 3]" 5000]
    C2_aggregator [of "[T_sent, T_queued]" "''post-1''"
      "ex_db [] P_publishing [ex_target ''t1'' ''twitter'' T_sent 1, ex_target ''t2'' ''linkedin'' T_queued 0]" 5000]
  by (simp add: ex_db_def ex_target_def)

lemma updatePostStatus_targets:
  "scheduled_post_targets (updatePostStatus db postId now) = scheduled_post_targets db"
  by (simp add: updatePostStatus_def Let_def)







subsection \<open>Delivery executor\<close>

lemma filter_update_where:
  assumes "\<And>r. sel (upd r) = sel r"
  shows "filter sel (update_where sel upd rows) = map upd (filter sel rows)"
  using assms by (induction rows) (simp_all add: update_where_def)


lemma update_where_twice:
  assumes "\<And>r. sel (upd r) = sel r"
  shows "update_where sel upd' (update_where sel upd rows) = update_where sel (\<lambda>r. upd' (upd r)) rows"
  using assms by (induction rows) (simp_all add: update_where_def)

lemma single_singleton: "single [r] = Some r"
  by (simp add: single_def)

lemma single_Some: "single rows = Some r \<longleftrightarrow> rows = [r]"
  by (cases rows; cases "tl rows") (auto simp: single_def)

lemma updatePostStatusIfComplete_targets:
  "scheduled_post_targets (updatePostStatusIfComplete db postId now) = scheduled_post_targets db"
  by (simp add: updatePostStatusIfComplete_eq updatePostStatus_targets)

text \<open>What the first stretch returns for a Target that passes the three checks.\<close>

lemma scheduling_publish_read_ready:
  assumes "filter (\<lambda>t. t_id t = targetId) (scheduled_post_targets db) = [tg]"
    and "t_status tg = T_queued \<or> t_status tg = T_retrying"
    and "t_attempt_count tg < 3"
    and "filter (\<lambda>p. p_id p = t_post_id tg) (scheduled_posts db) = [post]"
  shows "scheduling_publish_read db targetId now =
     (case single (filter (\<lambda>a. a_user_id a = p_user_id post \<and> a_platform a = t_platform tg)
                     (social_accounts db)) of
        None \<Rightarrow>
          (db\<lparr>scheduled_post_targets :=
                update_where (\<lambda>t. t_id t = targetId)
                  (\<lambda>t. t\<lparr>t_status := T_failed,
                          t_last_error := Some ''No connected social account for this platform'',
                          t_attempt_count := t_attempt_count tg + 1,
                          t_last_attempt_at := Some now,
                          t_updated_at := now\<rparr>)
                  (scheduled_post_targets db)\<rparr>,
           Inl \<lparr>http_status = 400,
                http_body = ErrorBody ''No connected social account for platform'' (Some ''NO_ACCOUNT'')\<rparr>)
      | Some account \<Rightarrow> (db, Inr (tg, post, account)))"
  using assms
  by (auto simp: scheduling_publish_read_def single_singleton MAX_RETRY_ATTEMPTS_def)

lemma publish_read_ready:
  assumes "filter (\<lambda>t. t_id t = targetId) (scheduled_post_targets db) = [tg]"
    and "t_status tg = T_queued \<or> t_status tg = T_retrying"
    and "t_attempt_count tg < 3"
    and "filter (\<lambda>p. p_id p = t_post_id tg) (scheduled_posts db) = [post]"
  shows "publish_read db targetId now =
     (case single (filter (\<lambda>a. a_user_id a = p_user_id post \<and> a_platform a = t_platform tg)
                     (social_accounts db)) of
        None \<Rightarrow>
          (db\<lparr>scheduled_post_targets :=
                update_where (\<lambda>t. t_id t = targetId)
                  (\<lambda>t. t\<lparr>t_status := T_failed,
                          t_last_error := Some ''No connected account'',
                          t_attempt_count := t_attempt_count tg + 1,
                          t_last_attempt_at := Some now,
                          t_updated_at := now\<rparr>)
                  (scheduled_post_targets db)\<rparr>,
           Inl \<lparr>http_status = 400, http_body = ErrorBody ''No connected account'' None\<rparr>)
      | Some account \<Rightarrow> (db, Inr (tg, post, account)))"
  using assms
  by (auto simp: publish_read_def single_singleton MAX_RETRY_ATTEMPTS_def)

text \<open>A Target that fails a check: the store is not written.\<close>

lemma scheduling_publish_read_rejected:
  assumes "\<And>tg. filter (\<lambda>t. t_id t = targetId) (scheduled_post_targets db) = [tg] \<Longrightarrow>
             t_status tg \<notin> {T_queued, T_retrying} \<or> 3 \<le> t_attempt_count tg"
  shows "\<exists>resp. scheduling_publish_read db targetId now = (db, Inl resp)"
proof (cases "single (filter (\<lambda>t. t_id t = targetId) (scheduled_post_targets db))")
  case None
  then show ?thesis by (simp add: scheduling_publish_read_def)
next
  case (Some tg)
  then have "filter (\<lambda>t. t_id t = targetId) (scheduled_post_targets db) = [tg]"
    by (simp add: single_Some)
  from assms [OF this] Some show ?thesis
    by (auto simp: scheduling_publish_read_def MAX_RETRY_ATTEMPTS_def)
qed

lemma publish_read_rejected:
  assumes "\<And>tg. filter (\<lambda>t. t_id t = targetId) (scheduled_post_targets db) = [tg] \<Longrightarrow>
             t_status tg \<notin> {T_queued, T_retrying} \<or> 3 \<le> t_attempt_count tg"
  shows "\<exists>resp. publish_read db targetId now = (db, Inl resp)"
proof (cases "single (filter (\<lambda>t. t_id t = targetId) (scheduled_post_targets db))")
  case None
  then show ?thesis by (simp add: publish_read_def)
next
  case (Some tg)
  then have "filter (\<lambda>t. t_id t = targetId) (scheduled_post_targets db) = [tg]"
    by (simp add: single_Some)
  from assms [OF this] Some show ?thesis
    by (auto simp: publish_read_def MAX_RETRY_ATTEMPTS_def)
qed

text \<open>The whole handler on a Target that passes the checks, by the presence of an account.\<close>

lemma scheduling_publish_post_no_account:
  assumes "attempt_ready db targetId tg post" and "credential db post tg = None"
  shows "scheduling_publish_post db targetId now result =
     (db\<lparr>scheduled_post_targets :=
           update_where (\<lambda>t. t_id t = targetId)
             (\<lambda>t. t\<lparr>t_status := T_failed,
                     t_last_error := Some ''No connected social account for this platform'',
                     t_attempt_count := t_attempt_count tg + 1,
                     t_last_attempt_at := Some now,
                     t_updated_at := now\<rparr>)
             (scheduled_post_targets db)\<rparr>,
      \<lparr>http_status = 400,
       http_body = ErrorBody ''No connected social account for platform'' (Some ''NO_ACCOUNT'')\<rparr>)"
proof -
  from assms(1) have r: "filter (\<lambda>t. t_id t = targetId) (scheduled_post_targets db) = [tg]"
    "t_status tg = T_queued \<or> t_status tg = T_retrying" "t_attempt_count tg < 3"
    "filter (\<lambda>p. p_id p = t_post_id tg) (scheduled_posts db) = [post]"
    by (simp_all add: attempt_ready_def)
  show ?thesis
    unfolding scheduling_publish_post_def scheduling_publish_read_ready [OF r]
    using assms(2) by (simp add: credential_def)
qed

lemma scheduling_publish_post_account:
  assumes "attempt_ready db targetId tg post" and "credential db post tg = Some account"
  shows "scheduling_publish_post db targetId now result =
     scheduling_publish_record (scheduling_publish_mark db targetId now) targetId tg post now result"
proof -
  from assms(1) have r: "filter (\<lambda>t. t_id t = targetId) (scheduled_post_targets db) = [tg]"
    "t_status tg = T_queued \<or> t_status tg = T_retrying" "t_attempt_count tg < 3"
    "filter (\<lambda>p. p_id p = t_post_id tg) (scheduled_posts db) = [post]"
    by (simp_all add: attempt_ready_def)
  show ?thesis
    unfolding scheduling_publish_post_def scheduling_publish_read_ready [OF r]
    using assms(2) by (simp add: credential_def)
qed

lemma publish_post_no_account:
  assumes "attempt_ready db targetId tg post" and "credential db post tg = None"
  shows "publish_post db targetId now result =
     (db\<lparr>scheduled_post_targets :=
           update_where (\<lambda>t. t_id t = targetId)
             (\<lambda>t. t\<lparr>t_status := T_failed,
                     t_last_error := Some ''No connected account'',
                     t_attempt_count := t_attempt_count tg + 1,
                     t_last_attempt_at := Some now,
                     t_updated_at := now\<rparr>)
             (scheduled_post_targets db)\<rparr>,
      \<lparr>http_status = 400, http_body = ErrorBody ''No connected account'' None\<rparr>)"
proof -
  from assms(1) have r: "filter (\<lambda>t. t_id t = targetId) (scheduled_post_targets db) = [tg]"
    "t_status tg = T_queued \<or> t_status tg = T_retrying" "t_attempt_count tg < 3"
    "filter (\<lambda>p. p_id p = t_post_id tg) (scheduled_posts db) = [post]"
    by (simp_all add: attempt_ready_def)
  show ?thesis
    unfolding publish_post_def publish_read_ready [OF r]
    using assms(2) by (simp add: credential_def)
qed

lemma publish_post_account:
  assumes "attempt_ready db targetId tg post" and "credential db post tg = Some account"
  shows "publish_post db targetId now result =
     publish_record (publish_mark db targetId now) targetId tg post now result"
proof -
  from assms(1) have r: "filter (\<lambda>t. t_id t = targetId) (scheduled_post_targets db) = [tg]"
    "t_status tg = T_queued \<or> t_status tg = T_retrying" "t_attempt_count tg < 3"
    "filter (\<lambda>p. p_id p = t_post_id tg) (scheduled_posts db) = [post]"
    by (simp_all add: attempt_ready_def)
  show ?thesis
    unfolding publish_post_def publish_read_ready [OF r]
    using assms(2) by (simp add: credential_def)
qed

text \<open>The Targets after the second and third stretches: one update of the rows with the id.\<close>

lemma scheduling_record_mark_targets:
  "scheduled_post_targets
     (fst (scheduling_publish_record (scheduling_publish_mark db targetId now) targetId tg post now result))
   = update_where (\<lambda>t. t_id t = targetId) (outcome_write tg now result) (scheduled_post_targets db)"
  by (simp add: scheduling_publish_record_def scheduling_publish_mark_def Let_def
      updatePostStatusIfComplete_targets update_where_twice outcome_write_def
      MAX_RETRY_ATTEMPTS_def update_where_def)

lemma record_mark_targets:
  "scheduled_post_targets
     (fst (publish_record (publish_mark db targetId now) targetId tg post now result))
   = update_where (\<lambda>t. t_id t = targetId) (outcome_write tg now result) (scheduled_post_targets db)"
  by (simp add: publish_record_def publish_mark_def Let_def
      updatePostStatus_targets update_where_twice outcome_write_def
      MAX_RETRY_ATTEMPTS_def update_where_def)



lemma counts_step_same_targets:
  "scheduled_post_targets db' = scheduled_post_targets db \<Longrightarrow> counts_step db db'"
  by (simp add: counts_step_def list_all2_same)


lemma outcome_write_fields:
  "t_id (outcome_write tg now result t) = t_id t"
  "t_attempt_count (outcome_write tg now result t) = t_attempt_count tg + 1"
  "t_last_attempt_at (outcome_write tg now result t) = Some now"
  by (simp_all add: outcome_write_def)
















lemma scheduling_process_target_fst:
  "fst (scheduling_process_target env (db, rs) (target, post)) =
     (case e_transport (env (t_id target)) of
        Refused m \<Rightarrow> db
      | _ \<Rightarrow> fst (scheduling_publish_post db (t_id target) (e_now (env (t_id target)))
                  (e_result (env (t_id target)))))"
  by (simp add: scheduling_process_target_def Let_def split: transport.splits prod.splits)

lemma process_target_fst:
  "fst (process_target env (db, rs) (target, post)) =
     (case e_transport (env (t_id target)) of
        Refused m \<Rightarrow> db
      | _ \<Rightarrow> fst (publish_post db (t_id target) (e_now (env (t_id target)))
                  (e_result (env (t_id target)))))"
  by (simp add: process_target_def Let_def split: transport.splits prod.splits)


















lemma ex_ready:
  "attempt_ready (ex_db accounts P_publishing [ex_target ''t1'' ''twitter'' T_queued 0]) ''t1''
     (ex_target ''t1'' ''twitter'' T_queued 0) (ex_post P_publishing)"
  by (simp add: attempt_ready_def ex_db_def ex_target_def ex_post_def)

lemma ex_no_credential:
  "credential (ex_db [] P_publishing [ex_target ''t1'' ''twitter'' T_queued 0])
     (ex_post P_publishing) (ex_target ''t1'' ''twitter'' T_queued 0) = None"
  by (simp add: credential_def ex_db_def single_def)

text \<open>
  C6 on a store where it fails. The owner has no account for the platform of the only
  Target of a post that the worker has moved to publishing. Either handler marks the
  Target failed with one attempt, the time of the attempt and an error, and answers 400
  with the no-account error, as the claim says; but it returns without calling the
  aggregator, so the post stays publishing, where a call of the aggregator on the store
  the handler leaves would have written failed.
\<close>

theorem C6_no_credential_skips_aggregator:
  "map (\<lambda>t. (t_status t, t_attempt_count t, t_last_attempt_at t, t_last_error t))
     (scheduled_post_targets
        (fst (scheduling_publish_post (ex_db [] P_publishing [ex_target ''t1'' ''twitter'' T_queued 0])
                ''t1'' 5000 ex_success)))
     = [(T_failed, 1, Some 5000, Some ''No connected social account for this platform'')]
   \<and> snd (scheduling_publish_post (ex_db [] P_publishing [ex_target ''t1'' ''twitter'' T_queued 0])
            ''t1'' 5000 ex_success)
     = \<lparr>http_status = 400,
        http_body = ErrorBody ''No connected social account for platform'' (Some ''NO_ACCOUNT'')\<rparr>
   \<and> map p_status
       (scheduled_posts
          (fst (scheduling_publish_post (ex_db [] P_publishing [ex_target ''t1'' ''twitter'' T_queued 0])
                  ''t1'' 5000 ex_success)))
     = [P_publishing]
   \<and> map p_status
       (scheduled_posts
          (updatePostStatusIfComplete
             (fst (scheduling_publish_post (ex_db [] P_publishing [ex_target ''t1'' ''twitter'' T_queued 0])
                     ''t1'' 5000 ex_success))
             ''post-1'' 5000))
     = [P_failed]
   \<and> map (\<lambda>t. (t_status t, t_attempt_count t, t_last_attempt_at t, t_last_error t))
     (scheduled_post_targets
        (fst (publish_post (ex_db [] P_publishing [ex_target ''t1'' ''twitter'' T_queued 0])
                ''t1'' 5000 ex_success)))
     = [(T_failed, 1, Some 5000, Some ''No connected account'')]
   \<and> snd (publish_post (ex_db [] P_publishing [ex_target ''t1'' ''twitter'' T_queued 0])
            ''t1'' 5000 ex_success)
     = \<lparr>http_status = 400, http_body = ErrorBody ''No connected account'' None\<rparr>
   \<and> map p_status
       (scheduled_posts
          (fst (publish_post (ex_db [] P_publishing [ex_target ''t1'' ''twitter'' T_queued 0])
                  ''t1'' 5000 ex_success)))
     = [P_publishing]
   \<and> map p_status
       (scheduled_posts
          (updatePostStatus
             (fst (publish_post (ex_db [] P_publishing [ex_target ''t1'' ''twitter'' T_queued 0])
                     ''t1'' 5000 ex_success))
             ''post-1'' 5000))
     = [P_failed]"
  unfolding scheduling_publish_post_no_account [OF ex_ready ex_no_credential]
    publish_post_no_account [OF ex_ready ex_no_credential]
  by (simp add: ex_db_def ex_target_def ex_post_def update_where_def
      updatePostStatusIfComplete_def updatePostStatus_def hasPending_def Let_def)

subsection \<open>Outcome reporting\<close>

lemma scheduling_publish_post_external_failure:
  assumes "attempt_ready db targetId tg post" and "credential db post tg = Some account"
    and "\<not> r_success result"
  shows "snd (scheduling_publish_post db targetId now result) =
     \<lparr>http_status = 200,
      http_body = AttemptFailedBody targetId
                    (if t_attempt_count tg + 1 < 3 then T_retrying else T_failed)
                    (r_error result) (t_attempt_count tg + 1) (t_attempt_count tg + 1 < 3)\<rparr>"
  unfolding scheduling_publish_post_account [OF assms(1,2)]
  using assms(3) by (simp add: scheduling_publish_record_def Let_def MAX_RETRY_ATTEMPTS_def)

lemma publish_post_external_failure:
  assumes "attempt_ready db targetId tg post" and "credential db post tg = Some account"
    and "\<not> r_success result"
  shows "snd (publish_post db targetId now result) =
     \<lparr>http_status = 200,
      http_body = AttemptFailedBody targetId
                    (if t_attempt_count tg + 1 < 3 then T_retrying else T_failed)
                    (r_error result) (t_attempt_count tg + 1) (t_attempt_count tg + 1 < 3)\<rparr>"
  unfolding publish_post_account [OF assms(1,2)]
  using assms(3) by (simp add: publish_record_def Let_def MAX_RETRY_ATTEMPTS_def)

lemma external_failure_status:
  assumes "filter (\<lambda>t. t_id t = targetId) rows = [tg]" and "\<not> r_success result"
  shows "map t_status (filter (\<lambda>t. t_id t = targetId)
            (update_where (\<lambda>t. t_id t = targetId) (outcome_write tg now result) rows))
         = [if t_attempt_count tg + 1 < 3 then T_retrying else T_failed]"
proof -
  have sel: "\<And>r. (t_id (outcome_write tg now result r) = targetId) = (t_id r = targetId)"
    by (simp add: outcome_write_fields)
  show ?thesis
    unfolding filter_update_where [of "\<lambda>t. t_id t = targetId" "outcome_write tg now result", OF sel]
      assms(1)
    using assms(2) by (simp add: outcome_write_def)
qed

lemma scheduling_process_target_snd:
  "snd (scheduling_process_target env (db, rs) (target, post)) =
     rs @ [\<lparr>re_targetId = t_id target, re_platform = t_platform target,
             re_success =
               (e_transport (env (t_id target)) = Delivered
                \<and> response_ok (snd (scheduling_publish_post db (t_id target)
                                       (e_now (env (t_id target))) (e_result (env (t_id target)))))
                \<and> body_success (http_body (snd (scheduling_publish_post db (t_id target)
                                       (e_now (env (t_id target))) (e_result (env (t_id target)))))))
             ,
             re_error =
               (case e_transport (env (t_id target)) of
                  Refused m \<Rightarrow> Some m
                | Dropped m \<Rightarrow> Some m
                | Delivered \<Rightarrow>
                    (let response = snd (scheduling_publish_post db (t_id target)
                                       (e_now (env (t_id target))) (e_result (env (t_id target))))
                     in if response_ok response \<and> body_success (http_body response) then None
                        else Some (case http_body response of
                                     ErrorBody message code \<Rightarrow> message
                                   | _ \<Rightarrow> ''Unknown error'')))\<rparr>]"
  by (simp add: scheduling_process_target_def Let_def split: transport.splits prod.splits)

lemma process_target_snd:
  "snd (process_target env (db, rs) (target, post)) =
     rs @ [\<lparr>re_targetId = t_id target, re_platform = t_platform target,
             re_success =
               (e_transport (env (t_id target)) = Delivered
                \<and> response_ok (snd (publish_post db (t_id target)
                                       (e_now (env (t_id target))) (e_result (env (t_id target)))))
                \<and> body_success (http_body (snd (publish_post db (t_id target)
                                       (e_now (env (t_id target))) (e_result (env (t_id target)))))))
             ,
             re_error =
               (case e_transport (env (t_id target)) of
                  Refused m \<Rightarrow> Some m
                | Dropped m \<Rightarrow> Some m
                | Delivered \<Rightarrow>
                    (case http_body (snd (publish_post db (t_id target)
                                       (e_now (env (t_id target))) (e_result (env (t_id target))))) of
                       ErrorBody message code \<Rightarrow> Some message
                     | SentBody _ _ _ \<Rightarrow> None
                     | AttemptFailedBody _ _ err _ _ \<Rightarrow> err))\<rparr>]"
  by (simp add: process_target_def Let_def split: transport.splits prod.splits)

lemma scheduling_schedule_worker_tallies:
  "http_status (snd (scheduling_schedule_worker env db now)) = 200
   \<and> c_processed (http_body (snd (scheduling_schedule_worker env db now)))
       = length (c_results (http_body (snd (scheduling_schedule_worker env db now))))
   \<and> c_succeeded (http_body (snd (scheduling_schedule_worker env db now)))
       = length (filter (\<lambda>r. re_success r) (c_results (http_body (snd (scheduling_schedule_worker env db now)))))
   \<and> c_failed (http_body (snd (scheduling_schedule_worker env db now)))
       = length (filter (\<lambda>r. \<not> re_success r) (c_results (http_body (snd (scheduling_schedule_worker env db now)))))"
  by (simp add: scheduling_schedule_worker_def Let_def split: prod.splits)

lemma schedule_worker_tallies:
  "http_status (snd (schedule_worker env db now)) = 200
   \<and> c_processed (http_body (snd (schedule_worker env db now)))
       = length (c_results (http_body (snd (schedule_worker env db now))))
   \<and> c_succeeded (http_body (snd (schedule_worker env db now)))
       = length (filter (\<lambda>r. re_success r) (c_results (http_body (snd (schedule_worker env db now)))))
   \<and> c_failed (http_body (snd (schedule_worker env db now)))
       = length (filter (\<lambda>r. \<not> re_success r) (c_results (http_body (snd (schedule_worker env db now)))))"
  by (simp add: schedule_worker_def Let_def split: prod.splits)

lemma scheduling_schedule_worker_results:
  "c_results (http_body (snd (scheduling_schedule_worker env db now))) =
     (let allTargets = scheduling_queuedTargets db now
            @ filter (\<lambda>(target, post).
                        shouldRetryTarget now (t_attempt_count target) (t_last_attempt_at target))
                (retryingTargets db)
      in snd (foldl (scheduling_process_target env)
                (claim_posts (remdups (map (\<lambda>(t, p). p_id p) allTargets)) now db, [])
                allTargets))"
  by (simp add: scheduling_schedule_worker_def Let_def split: prod.splits)

lemma schedule_worker_results:
  "c_results (http_body (snd (schedule_worker env db now))) =
     (let allTargets = queuedTargets db now
            @ filter (\<lambda>(t, p). shouldRetry now (t_attempt_count t) (t_last_attempt_at t))
                (retryingTargets db)
      in snd (foldl (process_target env)
                (claim_posts (remdups (map (\<lambda>(t, p). p_id p) allTargets)) now db, [])
                allTargets))"
  by (simp add: schedule_worker_def Let_def split: prod.splits)

text \<open>
  A loop whose body appends one entry and whose store does not depend on the entries
  gathered so far: the store after a prefix, and the entry of each Target.
\<close>

lemma foldl_entries:
  assumes "\<And>d rs tp. fst (f (d, rs) tp) = fst (f (d, []) tp)"
    and "\<And>d rs tp. snd (f (d, rs) tp) = rs @ [last (snd (f (d, []) tp))]"
  shows "foldl f (d, rs) tps = (fst (foldl f (d, []) tps), rs @ snd (foldl f (d, []) tps))
         \<and> length (snd (foldl f (d, []) tps)) = length tps"
proof (induction tps arbitrary: d rs)
  case Nil
  show ?case by simp
next
  case (Cons tp tps)
  define d1 where "d1 = fst (f (d, []) tp)"
  define e where "e = last (snd (f (d, []) tp))"
  have step: "f (d, rs') tp = (d1, rs' @ [e])" for rs'
    unfolding d1_def e_def prod_eq_iff fst_conv snd_conv
    using assms(1) [of d rs' tp] assms(2) [of d rs' tp] by (rule conjI)
  have a: "foldl f (d, rs) (tp # tps) = foldl f (d1, rs @ [e]) tps"
    by (simp only: foldl_Cons step)
  have b: "foldl f (d, []) (tp # tps) = foldl f (d1, [e]) tps"
    by (simp only: foldl_Cons step append_Nil)
  have c: "foldl f (d1, rs @ [e]) tps
           = (fst (foldl f (d1, []) tps), (rs @ [e]) @ snd (foldl f (d1, []) tps))"
    using Cons [of d1 "rs @ [e]"] by (rule conjunct1)
  have c': "foldl f (d1, [e]) tps
            = (fst (foldl f (d1, []) tps), [e] @ snd (foldl f (d1, []) tps))"
    using Cons [of d1 "[e]"] by (rule conjunct1)
  have l: "length (snd (foldl f (d1, []) tps)) = length tps"
    using Cons [of d1 "[]"] by (rule conjunct2)
  show ?case
    unfolding a b c c' by (simp add: l)
qed

lemma foldl_entry_at:
  assumes "\<And>d rs tp. fst (f (d, rs) tp) = fst (f (d, []) tp)"
    and "\<And>d rs tp. snd (f (d, rs) tp) = rs @ [last (snd (f (d, []) tp))]"
  shows "snd (foldl f (d, []) (pre @ tp # rest)) ! length pre
         = last (snd (f (fst (foldl f (d, []) pre), []) tp))"
proof -
  define di where "di = fst (foldl f (d, []) pre)"
  define ri where "ri = snd (foldl f (d, []) pre)"
  define e where "e = last (snd (f (di, []) tp))"
  define d1 where "d1 = fst (f (di, []) tp)"
  have len: "length ri = length pre"
    unfolding ri_def using foldl_entries [of f, OF assms, of d "[]" pre] by (rule conjunct2)
  have p: "foldl f (d, []) pre = (di, ri)"
    unfolding di_def ri_def by simp
  have step: "f (di, ri) tp = (d1, ri @ [e])"
    unfolding d1_def e_def prod_eq_iff fst_conv snd_conv
    using assms(1) [of di ri tp] assms(2) [of di ri tp] by (rule conjI)
  have "foldl f (d, []) (pre @ tp # rest) = foldl f (d1, ri @ [e]) rest"
    by (simp only: foldl_append foldl_Cons p step)
  also have "\<dots> = (fst (foldl f (d1, []) rest), (ri @ [e]) @ snd (foldl f (d1, []) rest))"
    using foldl_entries [of f, OF assms, of d1 "ri @ [e]" rest] by (rule conjunct1)
  finally have "snd (foldl f (d, []) (pre @ tp # rest)) ! length pre = e"
    using len by (simp add: nth_append)
  then show ?thesis
    unfolding e_def di_def .
qed

lemma process_target_body:
  "fst (process_target env (d, rs) tp) = fst (process_target env (d, []) tp)"
  "snd (process_target env (d, rs) tp) = rs @ [last (snd (process_target env (d, []) tp))]"
  by (cases tp; simp add: process_target_fst process_target_snd)+

lemma scheduling_process_target_body:
  "fst (scheduling_process_target env (d, rs) tp) = fst (scheduling_process_target env (d, []) tp)"
  "snd (scheduling_process_target env (d, rs) tp)
     = rs @ [last (snd (scheduling_process_target env (d, []) tp))]"
  by (cases tp; simp add: scheduling_process_target_fst scheduling_process_target_snd)+

lemma schedule_worker_report:
  "c_results (http_body (snd (schedule_worker env db now)))
     = snd (foldl (process_target env) (claimed db now (allTargets db now), []) (allTargets db now))"
  "c_processed (http_body (snd (schedule_worker env db now))) = length (allTargets db now)"
proof -
  show r: "c_results (http_body (snd (schedule_worker env db now)))
     = snd (foldl (process_target env) (claimed db now (allTargets db now), []) (allTargets db now))"
    unfolding schedule_worker_results allTargets_def claimed_def Let_def by (rule refl)
  have "c_processed (http_body (snd (schedule_worker env db now)))
        = length (c_results (http_body (snd (schedule_worker env db now))))"
    using schedule_worker_tallies [of env db now] by simp
  then show "c_processed (http_body (snd (schedule_worker env db now))) = length (allTargets db now)"
    unfolding r
    using foldl_entries [of "process_target env", OF process_target_body,
        of "claimed db now (allTargets db now)" "[]" "allTargets db now"]
    by simp
qed

lemma scheduling_schedule_worker_report:
  "c_results (http_body (snd (scheduling_schedule_worker env db now)))
     = snd (foldl (scheduling_process_target env)
              (claimed db now (scheduling_allTargets db now), []) (scheduling_allTargets db now))"
  "c_processed (http_body (snd (scheduling_schedule_worker env db now)))
     = length (scheduling_allTargets db now)"
proof -
  show r: "c_results (http_body (snd (scheduling_schedule_worker env db now)))
     = snd (foldl (scheduling_process_target env)
              (claimed db now (scheduling_allTargets db now), []) (scheduling_allTargets db now))"
    unfolding scheduling_schedule_worker_results scheduling_allTargets_def claimed_def Let_def
    by (rule refl)
  have "c_processed (http_body (snd (scheduling_schedule_worker env db now)))
        = length (c_results (http_body (snd (scheduling_schedule_worker env db now))))"
    using scheduling_schedule_worker_tallies [of env db now] by simp
  then show "c_processed (http_body (snd (scheduling_schedule_worker env db now)))
     = length (scheduling_allTargets db now)"
    unfolding r
    using foldl_entries [of "scheduling_process_target env", OF scheduling_process_target_body,
        of "claimed db now (scheduling_allTargets db now)" "[]" "scheduling_allTargets db now"]
    by simp
qed

text \<open>The entry that a cycle reports for the Target it processes after the Targets \<open>pre\<close>.\<close>

lemma schedule_worker_entry:
  assumes "allTargets db now = pre @ (target, parent) # rest"
  shows "c_results (http_body (snd (schedule_worker env db now))) ! length pre
     = last (snd (process_target env
          (fst (foldl (process_target env) (claimed db now (allTargets db now), []) pre), [])
          (target, parent)))"
  unfolding schedule_worker_report(1)
  using foldl_entry_at [of "process_target env", OF process_target_body,
      of "claimed db now (allTargets db now)" pre "(target, parent)" rest]
  by (simp add: assms [symmetric])

lemma scheduling_schedule_worker_entry:
  assumes "scheduling_allTargets db now = pre @ (target, parent) # rest"
  shows "c_results (http_body (snd (scheduling_schedule_worker env db now))) ! length pre
     = last (snd (scheduling_process_target env
          (fst (foldl (scheduling_process_target env)
                  (claimed db now (scheduling_allTargets db now), []) pre), [])
          (target, parent)))"
  unfolding scheduling_schedule_worker_report(1)
  using foldl_entry_at [of "scheduling_process_target env", OF scheduling_process_target_body,
      of "claimed db now (scheduling_allTargets db now)" pre "(target, parent)" rest]
  by (simp add: assms [symmetric])

text \<open>
  C10. When a Target passes the checks, its owner has an account and the publish
  capability fails, either publish handler answers 200 with \<^verbatim>\<open>success: true\<close>; the
  failure is in the data of the response only (the new status, retrying or failed, the
  error, the attempt count and \<^verbatim>\<open>willRetry\<close>). The loop of either worker appends one
  entry per Target, and the entry of such an attempt has \<^verbatim>\<open>success: true\<close> when the
  call came back; an entry has \<^verbatim>\<open>success: false\<close> exactly when the call threw or the
  response was not a 2xx with \<^verbatim>\<open>success: true\<close>. The report's \<^verbatim>\<open>succeeded\<close> and
  \<^verbatim>\<open>failed\<close> count the entries by that flag.

  The report of a cycle is tied to the Targets the cycle processed: its \<^verbatim>\<open>results\<close> are
  the entries that the loop gathers over \<^verbatim>\<open>allTargets\<close>, starting from the store in which
  the parent posts have been claimed, one entry per Target, and \<^verbatim>\<open>processed\<close> is their
  number. The entry at the position of a Target carries that Target's id, and with
  \<open>pre\<close> the Targets processed before it, its flag is decided by the handler's answer on
  the store that the loop has reached after \<open>pre\<close>: when the Target passes the checks
  there, its owner has an account, the publish capability fails and the call comes back,
  the entry has \<^verbatim>\<open>success: true\<close>, so the attempt is counted in \<^verbatim>\<open>succeeded\<close>; the entry
  has \<^verbatim>\<open>success: false\<close>, and is counted in \<^verbatim>\<open>failed\<close>, exactly when the call threw or
  the answer was not a 2xx with \<^verbatim>\<open>success: true\<close>.
\<close>

theorem C10_failure_reported_as_success:
  "(attempt_ready db targetId tg post \<and> credential db post tg = Some account \<and> \<not> r_success result \<longrightarrow>
       snd (scheduling_publish_post db targetId now result) =
         \<lparr>http_status = 200,
          http_body = AttemptFailedBody targetId
                        (if t_attempt_count tg + 1 < 3 then T_retrying else T_failed)
                        (r_error result) (t_attempt_count tg + 1) (t_attempt_count tg + 1 < 3)\<rparr>
     \<and> snd (publish_post db targetId now result) =
         \<lparr>http_status = 200,
          http_body = AttemptFailedBody targetId
                        (if t_attempt_count tg + 1 < 3 then T_retrying else T_failed)
                        (r_error result) (t_attempt_count tg + 1) (t_attempt_count tg + 1 < 3)\<rparr>
     \<and> map t_status (filter (\<lambda>t. t_id t = targetId)
           (scheduled_post_targets (fst (scheduling_publish_post db targetId now result))))
         = [if t_attempt_count tg + 1 < 3 then T_retrying else T_failed]
     \<and> map t_status (filter (\<lambda>t. t_id t = targetId)
           (scheduled_post_targets (fst (publish_post db targetId now result))))
         = [if t_attempt_count tg + 1 < 3 then T_retrying else T_failed])
   \<and> (attempt_ready db (t_id target) tg post \<and> credential db post tg = Some account
        \<and> \<not> r_success (e_result (env (t_id target))) \<and> e_transport (env (t_id target)) = Delivered \<longrightarrow>
         re_success (last (snd (scheduling_process_target env (db, rs) (target, parent))))
       \<and> re_success (last (snd (process_target env (db, rs) (target, parent)))))
   \<and> butlast (snd (scheduling_process_target env (db, rs) (target, parent))) = rs
   \<and> butlast (snd (process_target env (db, rs) (target, parent))) = rs
   \<and> (\<not> re_success (last (snd (scheduling_process_target env (db, rs) (target, parent)))) \<longleftrightarrow>
        e_transport (env (t_id target)) \<noteq> Delivered
        \<or> \<not> (response_ok (snd (scheduling_publish_post db (t_id target)
                                  (e_now (env (t_id target))) (e_result (env (t_id target)))))
              \<and> body_success (http_body (snd (scheduling_publish_post db (t_id target)
                                  (e_now (env (t_id target))) (e_result (env (t_id target))))))))
   \<and> (\<not> re_success (last (snd (process_target env (db, rs) (target, parent)))) \<longleftrightarrow>
        e_transport (env (t_id target)) \<noteq> Delivered
        \<or> \<not> (response_ok (snd (publish_post db (t_id target)
                                  (e_now (env (t_id target))) (e_result (env (t_id target)))))
              \<and> body_success (http_body (snd (publish_post db (t_id target)
                                  (e_now (env (t_id target))) (e_result (env (t_id target))))))))
   \<and> c_succeeded (http_body (snd (scheduling_schedule_worker env db now)))
       = length (filter (\<lambda>r. re_success r) (c_results (http_body (snd (scheduling_schedule_worker env db now)))))
   \<and> c_failed (http_body (snd (scheduling_schedule_worker env db now)))
       = length (filter (\<lambda>r. \<not> re_success r) (c_results (http_body (snd (scheduling_schedule_worker env db now)))))
   \<and> c_succeeded (http_body (snd (schedule_worker env db now)))
       = length (filter (\<lambda>r. re_success r) (c_results (http_body (snd (schedule_worker env db now)))))
   \<and> c_failed (http_body (snd (schedule_worker env db now)))
       = length (filter (\<lambda>r. \<not> re_success r) (c_results (http_body (snd (schedule_worker env db now)))))
   \<and> c_results (http_body (snd (scheduling_schedule_worker env db now)))
       = snd (foldl (scheduling_process_target env) (claimed db now (scheduling_allTargets db now), []) (scheduling_allTargets db now))
   \<and> c_processed (http_body (snd (scheduling_schedule_worker env db now))) = length (scheduling_allTargets db now)
   \<and> length (c_results (http_body (snd (scheduling_schedule_worker env db now)))) = length (scheduling_allTargets db now)
   \<and> c_results (http_body (snd (schedule_worker env db now)))
       = snd (foldl (process_target env) (claimed db now (allTargets db now), []) (allTargets db now))
   \<and> c_processed (http_body (snd (schedule_worker env db now))) = length (allTargets db now)
   \<and> length (c_results (http_body (snd (schedule_worker env db now)))) = length (allTargets db now)
   \<and> (scheduling_allTargets db now = pre @ (target, parent) # rest \<longrightarrow>
         c_results (http_body (snd (scheduling_schedule_worker env db now))) ! length pre
           = last (snd (scheduling_process_target env ((fst (foldl (scheduling_process_target env) (claimed db now (scheduling_allTargets db now), []) pre)), []) (target, parent)))
       \<and> re_targetId (c_results (http_body (snd (scheduling_schedule_worker env db now))) ! length pre) = t_id target
       \<and> (attempt_ready (fst (foldl (scheduling_process_target env) (claimed db now (scheduling_allTargets db now), []) pre)) (t_id target) tg post
            \<and> credential (fst (foldl (scheduling_process_target env) (claimed db now (scheduling_allTargets db now), []) pre)) post tg = Some account
            \<and> \<not> r_success (e_result (env (t_id target)))
            \<and> e_transport (env (t_id target)) = Delivered \<longrightarrow>
              re_success (c_results (http_body (snd (scheduling_schedule_worker env db now))) ! length pre))
       \<and> (\<not> re_success (c_results (http_body (snd (scheduling_schedule_worker env db now))) ! length pre) \<longleftrightarrow>
            e_transport (env (t_id target)) \<noteq> Delivered
            \<or> \<not> (response_ok (snd (scheduling_publish_post (fst (foldl (scheduling_process_target env) (claimed db now (scheduling_allTargets db now), []) pre)) (t_id target)
                                      (e_now (env (t_id target))) (e_result (env (t_id target)))))
                  \<and> body_success (http_body (snd (scheduling_publish_post (fst (foldl (scheduling_process_target env) (claimed db now (scheduling_allTargets db now), []) pre)) (t_id target)
                                      (e_now (env (t_id target))) (e_result (env (t_id target)))))))))
   \<and> (allTargets db now = pre @ (target, parent) # rest \<longrightarrow>
         c_results (http_body (snd (schedule_worker env db now))) ! length pre
           = last (snd (process_target env ((fst (foldl (process_target env) (claimed db now (allTargets db now), []) pre)), []) (target, parent)))
       \<and> re_targetId (c_results (http_body (snd (schedule_worker env db now))) ! length pre) = t_id target
       \<and> (attempt_ready (fst (foldl (process_target env) (claimed db now (allTargets db now), []) pre)) (t_id target) tg post
            \<and> credential (fst (foldl (process_target env) (claimed db now (allTargets db now), []) pre)) post tg = Some account
            \<and> \<not> r_success (e_result (env (t_id target)))
            \<and> e_transport (env (t_id target)) = Delivered \<longrightarrow>
              re_success (c_results (http_body (snd (schedule_worker env db now))) ! length pre))
       \<and> (\<not> re_success (c_results (http_body (snd (schedule_worker env db now))) ! length pre) \<longleftrightarrow>
            e_transport (env (t_id target)) \<noteq> Delivered
            \<or> \<not> (response_ok (snd (publish_post (fst (foldl (process_target env) (claimed db now (allTargets db now), []) pre)) (t_id target)
                                      (e_now (env (t_id target))) (e_result (env (t_id target)))))
                  \<and> body_success (http_body (snd (publish_post (fst (foldl (process_target env) (claimed db now (allTargets db now), []) pre)) (t_id target)
                                      (e_now (env (t_id target))) (e_result (env (t_id target)))))))))"
proof (intro conjI impI; (elim conjE)?)
  assume r: "attempt_ready db targetId tg post" and c: "credential db post tg = Some account"
    and f: "\<not> r_success result"
  from r have one: "filter (\<lambda>t. t_id t = targetId) (scheduled_post_targets db) = [tg]"
    by (simp add: attempt_ready_def)
  show "snd (scheduling_publish_post db targetId now result) =
         \<lparr>http_status = 200,
          http_body = AttemptFailedBody targetId
                        (if t_attempt_count tg + 1 < 3 then T_retrying else T_failed)
                        (r_error result) (t_attempt_count tg + 1) (t_attempt_count tg + 1 < 3)\<rparr>"
    using r c f by (rule scheduling_publish_post_external_failure)
  show "snd (publish_post db targetId now result) =
         \<lparr>http_status = 200,
          http_body = AttemptFailedBody targetId
                        (if t_attempt_count tg + 1 < 3 then T_retrying else T_failed)
                        (r_error result) (t_attempt_count tg + 1) (t_attempt_count tg + 1 < 3)\<rparr>"
    using r c f by (rule publish_post_external_failure)
  show "map t_status (filter (\<lambda>t. t_id t = targetId)
           (scheduled_post_targets (fst (scheduling_publish_post db targetId now result))))
         = [if t_attempt_count tg + 1 < 3 then T_retrying else T_failed]"
    unfolding scheduling_publish_post_account [OF r c] scheduling_record_mark_targets
    using one f by (rule external_failure_status)
  show "map t_status (filter (\<lambda>t. t_id t = targetId)
           (scheduled_post_targets (fst (publish_post db targetId now result))))
         = [if t_attempt_count tg + 1 < 3 then T_retrying else T_failed]"
    unfolding publish_post_account [OF r c] record_mark_targets
    using one f by (rule external_failure_status)
next
  assume r: "attempt_ready db (t_id target) tg post" and c: "credential db post tg = Some account"
    and f: "\<not> r_success (e_result (env (t_id target)))"
    and d: "e_transport (env (t_id target)) = Delivered"
  show "re_success (last (snd (scheduling_process_target env (db, rs) (target, parent))))"
    unfolding scheduling_process_target_snd
    using scheduling_publish_post_external_failure [OF r c f, of "e_now (env (t_id target))"] d
    by (simp add: response_ok_def)
  show "re_success (last (snd (process_target env (db, rs) (target, parent))))"
    unfolding process_target_snd
    using publish_post_external_failure [OF r c f, of "e_now (env (t_id target))"] d
    by (simp add: response_ok_def)
next
  show "butlast (snd (scheduling_process_target env (db, rs) (target, parent))) = rs"
    unfolding scheduling_process_target_snd by simp
next
  show "butlast (snd (process_target env (db, rs) (target, parent))) = rs"
    unfolding process_target_snd by simp
next
  show "(\<not> re_success (last (snd (scheduling_process_target env (db, rs) (target, parent))))) =
        (e_transport (env (t_id target)) \<noteq> Delivered
        \<or> \<not> (response_ok (snd (scheduling_publish_post db (t_id target)
                                  (e_now (env (t_id target))) (e_result (env (t_id target)))))
              \<and> body_success (http_body (snd (scheduling_publish_post db (t_id target)
                                  (e_now (env (t_id target))) (e_result (env (t_id target))))))))"
    unfolding scheduling_process_target_snd by simp
next
  show "(\<not> re_success (last (snd (process_target env (db, rs) (target, parent))))) =
        (e_transport (env (t_id target)) \<noteq> Delivered
        \<or> \<not> (response_ok (snd (publish_post db (t_id target)
                                  (e_now (env (t_id target))) (e_result (env (t_id target)))))
              \<and> body_success (http_body (snd (publish_post db (t_id target)
                                  (e_now (env (t_id target))) (e_result (env (t_id target))))))))"
    unfolding process_target_snd by simp
next
  show "c_succeeded (http_body (snd (scheduling_schedule_worker env db now)))
       = length (filter (\<lambda>r. re_success r) (c_results (http_body (snd (scheduling_schedule_worker env db now)))))"
    using scheduling_schedule_worker_tallies [of env db now] by simp
next
  show "c_failed (http_body (snd (scheduling_schedule_worker env db now)))
       = length (filter (\<lambda>r. \<not> re_success r) (c_results (http_body (snd (scheduling_schedule_worker env db now)))))"
    using scheduling_schedule_worker_tallies [of env db now] by simp
next
  show "c_succeeded (http_body (snd (schedule_worker env db now)))
       = length (filter (\<lambda>r. re_success r) (c_results (http_body (snd (schedule_worker env db now)))))"
    using schedule_worker_tallies [of env db now] by simp
next
  show "c_failed (http_body (snd (schedule_worker env db now)))
       = length (filter (\<lambda>r. \<not> re_success r) (c_results (http_body (snd (schedule_worker env db now)))))"
    using schedule_worker_tallies [of env db now] by simp
next
  show "c_results (http_body (snd (scheduling_schedule_worker env db now)))
       = snd (foldl (scheduling_process_target env) (claimed db now (scheduling_allTargets db now), []) (scheduling_allTargets db now))"
    by (rule scheduling_schedule_worker_report(1))
next
  show "c_processed (http_body (snd (scheduling_schedule_worker env db now))) = length (scheduling_allTargets db now)"
    by (rule scheduling_schedule_worker_report(2))
next
  show "length (c_results (http_body (snd (scheduling_schedule_worker env db now)))) = length (scheduling_allTargets db now)"
    using scheduling_schedule_worker_tallies [of env db now] scheduling_schedule_worker_report(2) [of env db now] by simp
next
  show "c_results (http_body (snd (schedule_worker env db now)))
       = snd (foldl (process_target env) (claimed db now (allTargets db now), []) (allTargets db now))"
    by (rule schedule_worker_report(1))
next
  show "c_processed (http_body (snd (schedule_worker env db now))) = length (allTargets db now)"
    by (rule schedule_worker_report(2))
next
  show "length (c_results (http_body (snd (schedule_worker env db now)))) = length (allTargets db now)"
    using schedule_worker_tallies [of env db now] schedule_worker_report(2) [of env db now] by simp
next
  assume h: "scheduling_allTargets db now = pre @ (target, parent) # rest"
  show "c_results (http_body (snd (scheduling_schedule_worker env db now))) ! length pre
           = last (snd (scheduling_process_target env ((fst (foldl (scheduling_process_target env) (claimed db now (scheduling_allTargets db now), []) pre)), []) (target, parent)))"
    using h by (rule scheduling_schedule_worker_entry)
  show "re_targetId (c_results (http_body (snd (scheduling_schedule_worker env db now))) ! length pre) = t_id target"
    unfolding scheduling_schedule_worker_entry [OF h] scheduling_process_target_snd by simp
  show "(\<not> re_success (c_results (http_body (snd (scheduling_schedule_worker env db now))) ! length pre)) =
        (e_transport (env (t_id target)) \<noteq> Delivered
            \<or> \<not> (response_ok (snd (scheduling_publish_post (fst (foldl (scheduling_process_target env) (claimed db now (scheduling_allTargets db now), []) pre)) (t_id target)
                                      (e_now (env (t_id target))) (e_result (env (t_id target)))))
                  \<and> body_success (http_body (snd (scheduling_publish_post (fst (foldl (scheduling_process_target env) (claimed db now (scheduling_allTargets db now), []) pre)) (t_id target)
                                      (e_now (env (t_id target))) (e_result (env (t_id target))))))))"
    unfolding scheduling_schedule_worker_entry [OF h] scheduling_process_target_snd by simp
  assume r: "attempt_ready (fst (foldl (scheduling_process_target env) (claimed db now (scheduling_allTargets db now), []) pre)) (t_id target) tg post"
    and c: "credential (fst (foldl (scheduling_process_target env) (claimed db now (scheduling_allTargets db now), []) pre)) post tg = Some account"
    and f: "\<not> r_success (e_result (env (t_id target)))"
    and d: "e_transport (env (t_id target)) = Delivered"
  show "re_success (c_results (http_body (snd (scheduling_schedule_worker env db now))) ! length pre)"
    unfolding scheduling_schedule_worker_entry [OF h] scheduling_process_target_snd
    using scheduling_publish_post_external_failure [OF r c f, of "e_now (env (t_id target))"] d
    by (simp add: response_ok_def)
next
  assume h: "allTargets db now = pre @ (target, parent) # rest"
  show "c_results (http_body (snd (schedule_worker env db now))) ! length pre
           = last (snd (process_target env ((fst (foldl (process_target env) (claimed db now (allTargets db now), []) pre)), []) (target, parent)))"
    using h by (rule schedule_worker_entry)
  show "re_targetId (c_results (http_body (snd (schedule_worker env db now))) ! length pre) = t_id target"
    unfolding schedule_worker_entry [OF h] process_target_snd by simp
  show "(\<not> re_success (c_results (http_body (snd (schedule_worker env db now))) ! length pre)) =
        (e_transport (env (t_id target)) \<noteq> Delivered
            \<or> \<not> (response_ok (snd (publish_post (fst (foldl (process_target env) (claimed db now (allTargets db now), []) pre)) (t_id target)
                                      (e_now (env (t_id target))) (e_result (env (t_id target)))))
                  \<and> body_success (http_body (snd (publish_post (fst (foldl (process_target env) (claimed db now (allTargets db now), []) pre)) (t_id target)
                                      (e_now (env (t_id target))) (e_result (env (t_id target))))))))"
    unfolding schedule_worker_entry [OF h] process_target_snd by simp
  assume r: "attempt_ready (fst (foldl (process_target env) (claimed db now (allTargets db now), []) pre)) (t_id target) tg post"
    and c: "credential (fst (foldl (process_target env) (claimed db now (allTargets db now), []) pre)) post tg = Some account"
    and f: "\<not> r_success (e_result (env (t_id target)))"
    and d: "e_transport (env (t_id target)) = Delivered"
  show "re_success (c_results (http_body (snd (schedule_worker env db now))) ! length pre)"
    unfolding schedule_worker_entry [OF h] process_target_snd
    using publish_post_external_failure [OF r c f, of "e_now (env (t_id target))"] d
    by (simp add: response_ok_def)
qed

theorem C10_failure_reported_as_success_witness:
  "snd (scheduling_publish_post
          (ex_db [ex_account ''twitter''] P_publishing [ex_target ''t1'' ''twitter'' T_queued 0])
          ''t1'' 6000 ex_failure)
     = \<lparr>http_status = 200,
        http_body = AttemptFailedBody ''t1'' T_retrying (r_error ex_failure) 1 True\<rparr>
   \<and> snd (publish_post
          (ex_db [ex_account ''twitter''] P_publishing [ex_target ''t1'' ''twitter'' T_queued 0])
          ''t1'' 6000 ex_failure)
     = \<lparr>http_status = 200,
        http_body = AttemptFailedBody ''t1'' T_retrying (r_error ex_failure) 1 True\<rparr>
   \<and> re_success (last (snd (scheduling_process_target ex_env
          (ex_db [ex_account ''twitter''] P_publishing [ex_target ''t1'' ''twitter'' T_queued 0], [])
          (ex_target ''t1'' ''twitter'' T_queued 0, ex_post P_publishing))))
   \<and> re_success (last (snd (process_target ex_env
          (ex_db [ex_account ''twitter''] P_publishing [ex_target ''t1'' ''twitter'' T_queued 0], [])
          (ex_target ''t1'' ''twitter'' T_queued 0, ex_post P_publishing))))
   \<and> c_processed (http_body (snd (scheduling_schedule_worker ex_env
          (ex_db [ex_account ''twitter''] P_queued [ex_target ''t1'' ''twitter'' T_queued 0]) 5000))) = 1
   \<and> re_targetId (c_results (http_body (snd (scheduling_schedule_worker ex_env
          (ex_db [ex_account ''twitter''] P_queued [ex_target ''t1'' ''twitter'' T_queued 0]) 5000))) ! 0) = ''t1''
   \<and> re_success (c_results (http_body (snd (scheduling_schedule_worker ex_env
          (ex_db [ex_account ''twitter''] P_queued [ex_target ''t1'' ''twitter'' T_queued 0]) 5000))) ! 0)
   \<and> c_succeeded (http_body (snd (scheduling_schedule_worker ex_env
          (ex_db [ex_account ''twitter''] P_queued [ex_target ''t1'' ''twitter'' T_queued 0]) 5000))) = 1
   \<and> c_failed (http_body (snd (scheduling_schedule_worker ex_env
          (ex_db [ex_account ''twitter''] P_queued [ex_target ''t1'' ''twitter'' T_queued 0]) 5000))) = 0
   \<and> c_processed (http_body (snd (schedule_worker ex_env
          (ex_db [ex_account ''twitter''] P_queued [ex_target ''t1'' ''twitter'' T_queued 0]) 5000))) = 1
   \<and> re_targetId (c_results (http_body (snd (schedule_worker ex_env
          (ex_db [ex_account ''twitter''] P_queued [ex_target ''t1'' ''twitter'' T_queued 0]) 5000))) ! 0) = ''t1''
   \<and> re_success (c_results (http_body (snd (schedule_worker ex_env
          (ex_db [ex_account ''twitter''] P_queued [ex_target ''t1'' ''twitter'' T_queued 0]) 5000))) ! 0)
   \<and> c_succeeded (http_body (snd (schedule_worker ex_env
          (ex_db [ex_account ''twitter''] P_queued [ex_target ''t1'' ''twitter'' T_queued 0]) 5000))) = 1
   \<and> c_failed (http_body (snd (schedule_worker ex_env
          (ex_db [ex_account ''twitter''] P_queued [ex_target ''t1'' ''twitter'' T_queued 0]) 5000))) = 0"
proof -
  let ?tg = "ex_target ''t1'' ''twitter'' T_queued 0"
  let ?db = "ex_db [ex_account ''twitter''] P_publishing [?tg]"
  let ?dbq = "ex_db [ex_account ''twitter''] P_queued [?tg]"
  let ?claimed = "(ex_post P_queued)\<lparr>p_status := P_publishing, p_updated_at := 5000\<rparr>"
  let ?sstore = "fst (foldl (scheduling_process_target ex_env)
                      (claimed ?dbq 5000 (scheduling_allTargets ?dbq 5000), []) [])"
  let ?fstore = "fst (foldl (process_target ex_env)
                      (claimed ?dbq 5000 (allTargets ?dbq 5000), []) [])"
  let ?srep = "http_body (snd (scheduling_schedule_worker ex_env ?dbq 5000))"
  let ?frep = "http_body (snd (schedule_worker ex_env ?dbq 5000))"
  have i: "t_id ?tg = ''t1''" and n: "t_attempt_count ?tg = 0"
    by (simp_all add: ex_target_def)
  have r: "attempt_ready ?db ''t1'' ?tg (ex_post P_publishing)"
    by (rule ex_ready)
  have c: "credential ?db (ex_post P_publishing) ?tg = Some (ex_account ''twitter'')"
    by (simp add: credential_def ex_db_def ex_account_def ex_post_def ex_target_def single_def)
  have f: "\<not> r_success ex_failure"
    by (simp add: ex_failure_def)
  have e: "e_result (ex_env ''t1'') = ex_failure" "e_transport (ex_env ''t1'') = Delivered"
    by (simp_all add: ex_env_def)
  have one: "length xs = 1 \<Longrightarrow> re_success (xs ! 0) \<Longrightarrow>
             length (filter (\<lambda>r. re_success r) xs) = 1
             \<and> length (filter (\<lambda>r. \<not> re_success r) xs) = 0" for xs :: "result_entry list"
    by (cases xs) simp_all
  note T = C10_failure_reported_as_success [where db = ?db and targetId = "''t1''" and tg = ?tg
      and post = "ex_post P_publishing" and account = "ex_account ''twitter''"
      and result = ex_failure and now = 6000 and target = ?tg and env = ex_env and rs = "[]"
      and parent = "ex_post P_publishing"]
  note U = C10_failure_reported_as_success [where db = ?dbq and now = 5000 and env = ex_env and pre = "[]"
      and target = ?tg and parent = "ex_post P_queued" and rest = "[]" and tg = ?tg
      and post = ?claimed and account = "ex_account ''twitter''"
      and targetId = "''t1''" and result = ex_failure and rs = "[]"]
  note V = U [THEN conjunct2, THEN conjunct2, THEN conjunct2, THEN conjunct2, THEN conjunct2,
      THEN conjunct2]
  have f': "\<not> r_success (e_result (ex_env (t_id ?tg)))
             \<and> e_transport (ex_env (t_id ?tg)) = Delivered"
    by (simp add: ex_env_def ex_failure_def)
  have sa: "scheduling_allTargets ?dbq 5000 = [] @ (?tg, ex_post P_queued) # []"
    by code_simp
  have sr: "attempt_ready ?sstore (t_id ?tg) ?tg ?claimed"
    by code_simp
  have sc: "credential ?sstore ?claimed ?tg = Some (ex_account ''twitter'')"
    by code_simp
  have su: "re_targetId (c_results ?srep ! length ([] :: TargetWithPost list)) = t_id ?tg
      \<and> re_success (c_results ?srep ! length ([] :: TargetWithPost list))
      \<and> length (c_results ?srep) = length (scheduling_allTargets ?dbq 5000)
      \<and> c_processed ?srep = length (scheduling_allTargets ?dbq 5000)
      \<and> c_succeeded ?srep
          = length (filter (\<lambda>r. re_success r) (c_results ?srep))
      \<and> c_failed ?srep
          = length (filter (\<lambda>r. \<not> re_success r) (c_results ?srep))"
    using V sa sr sc f' by blast
  have sl: "length (scheduling_allTargets ?dbq 5000) = 1"
    unfolding sa by simp
  have sv: "c_processed ?srep = 1
      \<and> re_targetId (c_results ?srep ! 0) = ''t1''
      \<and> re_success (c_results ?srep ! 0)
      \<and> c_succeeded ?srep = 1
      \<and> c_failed ?srep = 0"
    using su unfolding sl i by (simp add: one)
  have fa: "allTargets ?dbq 5000 = [] @ (?tg, ex_post P_queued) # []"
    by code_simp
  have fr: "attempt_ready ?fstore (t_id ?tg) ?tg ?claimed"
    by code_simp
  have fc: "credential ?fstore ?claimed ?tg = Some (ex_account ''twitter'')"
    by code_simp
  have fu: "re_targetId (c_results ?frep ! length ([] :: TargetWithPost list)) = t_id ?tg
      \<and> re_success (c_results ?frep ! length ([] :: TargetWithPost list))
      \<and> length (c_results ?frep) = length (allTargets ?dbq 5000)
      \<and> c_processed ?frep = length (allTargets ?dbq 5000)
      \<and> c_succeeded ?frep
          = length (filter (\<lambda>r. re_success r) (c_results ?frep))
      \<and> c_failed ?frep
          = length (filter (\<lambda>r. \<not> re_success r) (c_results ?frep))"
    using V fa fr fc f' by blast
  have fl: "length (allTargets ?dbq 5000) = 1"
    unfolding fa by simp
  have fv: "c_processed ?frep = 1
      \<and> re_targetId (c_results ?frep ! 0) = ''t1''
      \<and> re_success (c_results ?frep ! 0)
      \<and> c_succeeded ?frep = 1
      \<and> c_failed ?frep = 0"
    using fu unfolding fl i by (simp add: one)
  have handler: "snd (scheduling_publish_post
          (ex_db [ex_account ''twitter''] P_publishing [ex_target ''t1'' ''twitter'' T_queued 0])
          ''t1'' 6000 ex_failure)
     = \<lparr>http_status = 200,
        http_body = AttemptFailedBody ''t1'' T_retrying (r_error ex_failure) 1 True\<rparr>
   \<and> snd (publish_post
          (ex_db [ex_account ''twitter''] P_publishing [ex_target ''t1'' ''twitter'' T_queued 0])
          ''t1'' 6000 ex_failure)
     = \<lparr>http_status = 200,
        http_body = AttemptFailedBody ''t1'' T_retrying (r_error ex_failure) 1 True\<rparr>
   \<and> re_success (last (snd (scheduling_process_target ex_env
          (ex_db [ex_account ''twitter''] P_publishing [ex_target ''t1'' ''twitter'' T_queued 0], [])
          (ex_target ''t1'' ''twitter'' T_queued 0, ex_post P_publishing))))
   \<and> re_success (last (snd (process_target ex_env
          (ex_db [ex_account ''twitter''] P_publishing [ex_target ''t1'' ''twitter'' T_queued 0], [])
          (ex_target ''t1'' ''twitter'' T_queued 0, ex_post P_publishing))))"
    using T r c f e unfolding i n by simp
  from handler sv fv show ?thesis
    by simp
qed

text \<open>
  A whole cycle of each worker on a store with one due Target whose publish fails at the
  platform: the report counts it as succeeded, and the Target is retrying.
\<close>

lemma ex_cycle_scheduling:
  "snd (scheduling_schedule_worker ex_env
      (ex_db [ex_account ''twitter''] P_queued [ex_target ''t1'' ''twitter'' T_queued 0]) 5000)
   = \<lparr>http_status = 200,
      http_body = \<lparr>c_processed = 1, c_succeeded = 1, c_failed = 0,
                   c_results = [\<lparr>re_targetId = ''t1'', re_platform = ''twitter'',
                                 re_success = True, re_error = None\<rparr>]\<rparr>\<rparr>
  \<and> map t_status (scheduled_post_targets (fst (scheduling_schedule_worker ex_env
      (ex_db [ex_account ''twitter''] P_queued [ex_target ''t1'' ''twitter'' T_queued 0]) 5000)))
   = [T_retrying]"
  by code_simp

lemma ex_cycle:
  "snd (schedule_worker ex_env
      (ex_db [ex_account ''twitter''] P_queued [ex_target ''t1'' ''twitter'' T_queued 0]) 5000)
   = \<lparr>http_status = 200,
      http_body = \<lparr>c_processed = 1, c_succeeded = 1, c_failed = 0,
                   c_results = [\<lparr>re_targetId = ''t1'', re_platform = ''twitter'',
                                 re_success = True,
                                 re_error = Some ''twitter API error: Rate limit exceeded''\<rparr>]\<rparr>\<rparr>
  \<and> map t_status (scheduled_post_targets (fst (schedule_worker ex_env
      (ex_db [ex_account ''twitter''] P_queued [ex_target ''t1'' ''twitter'' T_queued 0]) 5000)))
   = [T_retrying]"
  by code_simp

subsection \<open>State guard\<close>

text \<open>An attempt that runs its three stretches with nothing in between is the handler.\<close>

lemma scheduling_attempt_alone:
  "scheduling_attempt_step targetId now result
     (scheduling_attempt_step targetId now result
        (scheduling_attempt_step targetId now result (db, Started)))
   = (fst (scheduling_publish_post db targetId now result),
      (case snd (scheduling_publish_read db targetId now) of
         Inl resp \<Rightarrow> Rejected (snd (scheduling_publish_post db targetId now result))
       | Inr x \<Rightarrow> Finished (snd (scheduling_publish_post db targetId now result))))"
  by (cases "scheduling_publish_read db targetId now")
     (auto simp: scheduling_publish_post_def split: sum.splits prod.splits)

lemma attempt_alone:
  "attempt_step targetId now result
     (attempt_step targetId now result
        (attempt_step targetId now result (db, Started)))
   = (fst (publish_post db targetId now result),
      (case snd (publish_read db targetId now) of
         Inl resp \<Rightarrow> Rejected (snd (publish_post db targetId now result))
       | Inr x \<Rightarrow> Finished (snd (publish_post db targetId now result))))"
  by (cases "publish_read db targetId now")
     (auto simp: publish_post_def split: sum.splits prod.splits)

lemma mark_row:
  assumes "filter (\<lambda>t. t_id t = targetId) rows = [tg]"
  shows "filter (\<lambda>t. t_id t = targetId)
           (update_where (\<lambda>t. t_id t = targetId) (\<lambda>t. t\<lparr>t_status := T_publishing, t_updated_at := now\<rparr>) rows)
         = [tg\<lparr>t_status := T_publishing, t_updated_at := now\<rparr>]"
proof -
  have sel: "\<And>r. (t_id (r\<lparr>t_status := T_publishing, t_updated_at := now\<rparr>) = targetId) = (t_id r = targetId)"
    by simp
  show ?thesis
    unfolding filter_update_where [of "\<lambda>t. t_id t = targetId"
        "\<lambda>t. t\<lparr>t_status := T_publishing, t_updated_at := now\<rparr>", OF sel] assms
    by simp
qed

lemma scheduling_read_after_mark:
  assumes "filter (\<lambda>t. t_id t = targetId) (scheduled_post_targets db) = [tg]"
  shows "scheduling_publish_read (scheduling_publish_mark db targetId now) targetId now' =
     (scheduling_publish_mark db targetId now,
      Inl \<lparr>http_status = 400,
           http_body = ErrorBody ''Target cannot be published with status: publishing''
                         (Some ''INVALID_STATUS'')\<rparr>)"
  unfolding scheduling_publish_read_def
  by (simp add: scheduling_publish_mark_def mark_row [OF assms] single_def)

lemma read_after_mark:
  assumes "filter (\<lambda>t. t_id t = targetId) (scheduled_post_targets db) = [tg]"
  shows "publish_read (publish_mark db targetId now) targetId now' =
     (publish_mark db targetId now,
      Inl \<lparr>http_status = 400,
           http_body = ErrorBody ''Target status is publishing, cannot publish'' None\<rparr>)"
  unfolding publish_read_def
  by (simp add: publish_mark_def mark_row [OF assms] single_def)

lemma scheduling_read_accepts:
  assumes "attempt_ready db targetId tg post" and "credential db post tg = Some account"
  shows "scheduling_publish_read db targetId now = (db, Inr (tg, post, account))"
proof -
  from assms(1) have r: "filter (\<lambda>t. t_id t = targetId) (scheduled_post_targets db) = [tg]"
    "t_status tg = T_queued \<or> t_status tg = T_retrying" "t_attempt_count tg < 3"
    "filter (\<lambda>p. p_id p = t_post_id tg) (scheduled_posts db) = [post]"
    by (simp_all add: attempt_ready_def)
  show ?thesis
    unfolding scheduling_publish_read_ready [OF r]
    using assms(2) by (simp add: credential_def)
qed

lemma read_accepts:
  assumes "attempt_ready db targetId tg post" and "credential db post tg = Some account"
  shows "publish_read db targetId now = (db, Inr (tg, post, account))"
proof -
  from assms(1) have r: "filter (\<lambda>t. t_id t = targetId) (scheduled_post_targets db) = [tg]"
    "t_status tg = T_queued \<or> t_status tg = T_retrying" "t_attempt_count tg < 3"
    "filter (\<lambda>p. p_id p = t_post_id tg) (scheduled_posts db) = [post]"
    by (simp_all add: attempt_ready_def)
  show ?thesis
    unfolding publish_read_ready [OF r]
    using assms(2) by (simp add: credential_def)
qed

lemma mark_statuses:
  "map t_status (filter (\<lambda>t. t_id t = targetId)
      (update_where (\<lambda>t. t_id t = targetId) (\<lambda>t. t\<lparr>t_status := T_publishing, t_updated_at := now\<rparr>) rows))
   = map (\<lambda>t. T_publishing) (filter (\<lambda>t. t_id t = targetId) rows)"
  by (induction rows) (simp_all add: update_where_def)

text \<open>
  C3, as the code has it. The status check of an attempt is made on the row it read in
  its first stretch, and the write that marks the Target publishing selects by id only:
  it sets publishing on the row whatever its status is by then. So an attempt that
  reads the Target after another attempt has marked it is rejected with the
  invalid-status error, and two attempts that both read it before either marks it are
  both accepted and both mark it.
\<close>

theorem C3_state_guard:
  "(attempt_ready db targetId tg post \<and> credential db post tg = Some account \<longrightarrow>
       interleave (scheduling_attempt_step targetId now result) [True, True, False] (db, Started, Started)
         = (scheduling_publish_mark db targetId now, Marked tg post,
            Rejected \<lparr>http_status = 400,
                      http_body = ErrorBody ''Target cannot be published with status: publishing''
                                    (Some ''INVALID_STATUS'')\<rparr>)
     \<and> interleave (attempt_step targetId now result) [True, True, False] (db, Started, Started)
         = (publish_mark db targetId now, Marked tg post,
            Rejected \<lparr>http_status = 400,
                      http_body = ErrorBody ''Target status is publishing, cannot publish'' None\<rparr>)
     \<and> interleave (scheduling_attempt_step targetId now result) [True, False, True, False]
           (db, Started, Started)
         = (scheduling_publish_mark (scheduling_publish_mark db targetId now) targetId now,
            Marked tg post, Marked tg post)
     \<and> interleave (attempt_step targetId now result) [True, False, True, False] (db, Started, Started)
         = (publish_mark (publish_mark db targetId now) targetId now, Marked tg post, Marked tg post))
   \<and> map t_status (filter (\<lambda>t. t_id t = targetId)
         (scheduled_post_targets (scheduling_publish_mark db targetId now)))
       = map (\<lambda>t. T_publishing) (filter (\<lambda>t. t_id t = targetId) (scheduled_post_targets db))
   \<and> map t_status (filter (\<lambda>t. t_id t = targetId)
         (scheduled_post_targets (publish_mark db targetId now)))
       = map (\<lambda>t. T_publishing) (filter (\<lambda>t. t_id t = targetId) (scheduled_post_targets db))"
proof (intro conjI impI; (elim conjE)?)
  assume r: "attempt_ready db targetId tg post" and c: "credential db post tg = Some account"
  from r have one: "filter (\<lambda>t. t_id t = targetId) (scheduled_post_targets db) = [tg]"
    by (simp add: attempt_ready_def)
  show "interleave (scheduling_attempt_step targetId now result) [True, True, False] (db, Started, Started)
         = (scheduling_publish_mark db targetId now, Marked tg post,
            Rejected \<lparr>http_status = 400,
                      http_body = ErrorBody ''Target cannot be published with status: publishing''
                                    (Some ''INVALID_STATUS'')\<rparr>)"
    by (simp add: scheduling_read_accepts [OF r c] scheduling_read_after_mark [OF one])
  show "interleave (attempt_step targetId now result) [True, True, False] (db, Started, Started)
         = (publish_mark db targetId now, Marked tg post,
            Rejected \<lparr>http_status = 400,
                      http_body = ErrorBody ''Target status is publishing, cannot publish'' None\<rparr>)"
    by (simp add: read_accepts [OF r c] read_after_mark [OF one])
  show "interleave (scheduling_attempt_step targetId now result) [True, False, True, False]
           (db, Started, Started)
         = (scheduling_publish_mark (scheduling_publish_mark db targetId now) targetId now,
            Marked tg post, Marked tg post)"
    by (simp add: scheduling_read_accepts [OF r c])
  show "interleave (attempt_step targetId now result) [True, False, True, False] (db, Started, Started)
         = (publish_mark (publish_mark db targetId now) targetId now, Marked tg post, Marked tg post)"
    by (simp add: read_accepts [OF r c])
next
  show "map t_status (filter (\<lambda>t. t_id t = targetId)
         (scheduled_post_targets (scheduling_publish_mark db targetId now)))
       = map (\<lambda>t. T_publishing) (filter (\<lambda>t. t_id t = targetId) (scheduled_post_targets db))"
    by (simp add: scheduling_publish_mark_def mark_statuses)
next
  show "map t_status (filter (\<lambda>t. t_id t = targetId)
         (scheduled_post_targets (publish_mark db targetId now)))
       = map (\<lambda>t. T_publishing) (filter (\<lambda>t. t_id t = targetId) (scheduled_post_targets db))"
    by (simp add: publish_mark_def mark_statuses)
qed

theorem C3_state_guard_witness:
  "snd (interleave (scheduling_attempt_step ''t1'' 6000 ex_success) [True, True, False]
          (ex_db [ex_account ''twitter''] P_publishing [ex_target ''t1'' ''twitter'' T_queued 0],
           Started, Started))
     = (Marked (ex_target ''t1'' ''twitter'' T_queued 0) (ex_post P_publishing),
        Rejected \<lparr>http_status = 400,
                  http_body = ErrorBody ''Target cannot be published with status: publishing''
                                (Some ''INVALID_STATUS'')\<rparr>)
   \<and> snd (interleave (attempt_step ''t1'' 6000 ex_success) [True, True, False]
          (ex_db [ex_account ''twitter''] P_publishing [ex_target ''t1'' ''twitter'' T_queued 0],
           Started, Started))
     = (Marked (ex_target ''t1'' ''twitter'' T_queued 0) (ex_post P_publishing),
        Rejected \<lparr>http_status = 400,
                  http_body = ErrorBody ''Target status is publishing, cannot publish'' None\<rparr>)"
proof -
  let ?tg = "ex_target ''t1'' ''twitter'' T_queued 0"
  let ?db = "ex_db [ex_account ''twitter''] P_publishing [?tg]"
  have r: "attempt_ready ?db ''t1'' ?tg (ex_post P_publishing)"
    by (rule ex_ready)
  have c: "credential ?db (ex_post P_publishing) ?tg = Some (ex_account ''twitter'')"
    by (simp add: credential_def ex_db_def ex_account_def ex_post_def ex_target_def single_def)
  from C3_state_guard [of ?db "''t1''" ?tg "ex_post P_publishing" "ex_account ''twitter''"
      6000 ex_success] r c
  show ?thesis by simp
qed

text \<open>
  C3 as stated fails: two attempts on a queued Target that both read before either
  writes both mark it publishing, and when they run on both deliver and both answer 200;
  neither is rejected.
\<close>

theorem C3_both_attempts_proceed_counterexample:
  "snd (interleave (scheduling_attempt_step ''t1'' 6000 ex_success) [True, False, True, False]
          (ex_db [ex_account ''twitter''] P_publishing [ex_target ''t1'' ''twitter'' T_queued 0],
           Started, Started))
     = (Marked (ex_target ''t1'' ''twitter'' T_queued 0) (ex_post P_publishing),
        Marked (ex_target ''t1'' ''twitter'' T_queued 0) (ex_post P_publishing))
   \<and> snd (interleave (attempt_step ''t1'' 6000 ex_success) [True, False, True, False]
          (ex_db [ex_account ''twitter''] P_publishing [ex_target ''t1'' ''twitter'' T_queued 0],
           Started, Started))
     = (Marked (ex_target ''t1'' ''twitter'' T_queued 0) (ex_post P_publishing),
        Marked (ex_target ''t1'' ''twitter'' T_queued 0) (ex_post P_publishing))
   \<and> snd (interleave (scheduling_attempt_step ''t1'' 6000 ex_success)
            [True, False, True, False, True, False]
          (ex_db [ex_account ''twitter''] P_publishing [ex_target ''t1'' ''twitter'' T_queued 0],
           Started, Started))
     = (Finished \<lparr>http_status = 200,
                  http_body = SentBody ''t1'' (r_postId ex_success) (r_postUrl ex_success)\<rparr>,
        Finished \<lparr>http_status = 200,
                  http_body = SentBody ''t1'' (r_postId ex_success) (r_postUrl ex_success)\<rparr>)
   \<and> snd (interleave (attempt_step ''t1'' 6000 ex_success)
            [True, False, True, False, True, False]
          (ex_db [ex_account ''twitter''] P_publishing [ex_target ''t1'' ''twitter'' T_queued 0],
           Started, Started))
     = (Finished \<lparr>http_status = 200,
                  http_body = SentBody ''t1'' (r_postId ex_success) (r_postUrl ex_success)\<rparr>,
        Finished \<lparr>http_status = 200,
                  http_body = SentBody ''t1'' (r_postId ex_success) (r_postUrl ex_success)\<rparr>)"
  by code_simp

subsection \<open>Cancellation\<close>

lemma scheduling_cancel_effect:
  assumes "filter (\<lambda>p. p_id p = postId) (scheduled_posts db) = [post]"
    and "p_user_id post = userId"
    and "p_status post \<noteq> P_published" and "p_status post \<noteq> P_cancelled"
  shows "scheduling_cancel_scheduled_post db userId postId now =
     (db\<lparr>scheduled_posts :=
           update_where (\<lambda>p. p_id p = postId)
             (\<lambda>p. p\<lparr>p_status := P_cancelled,
                     p_metadata :=
                       obj_set ''cancelledBy'' (JString userId)
                         (obj_set ''cancelledAt'' (JTime now) (p_metadata post)),
                     p_updated_at := now\<rparr>)
             (scheduled_posts db),
         scheduled_post_targets :=
           update_where (cancellable postId) (cancel_write now) (scheduled_post_targets db)\<rparr>,
      \<lparr>http_status = 200,
       http_body = CancelOk postId
         (length (filter (cancellable postId) (scheduled_post_targets db)))\<rparr>)"
proof -
  have c: "(\<lambda>t. t_post_id t = postId \<and> t_status t \<in> set [T_queued, T_retrying, T_publishing])
           = cancellable postId"
    by (auto simp: cancellable_def fun_eq_iff)
  have w: "(\<lambda>t. t\<lparr>t_status := T_cancelled, t_last_error := Some ''Post cancelled by user'',
                   t_updated_at := now\<rparr>) = cancel_write now"
    by (simp add: cancel_write_def fun_eq_iff)
  show ?thesis
    unfolding scheduling_cancel_scheduled_post_def Let_def c w
    using assms by (simp add: single_def)
qed

lemma cancel_effect:
  assumes "filter (\<lambda>p. p_id p = postId) (scheduled_posts db) = [post]"
    and "p_user_id post = userId"
    and "p_status post \<noteq> P_published" and "p_status post \<noteq> P_cancelled"
  shows "cancel_scheduled_post db userId postId now =
     (db\<lparr>scheduled_posts :=
           update_where (\<lambda>p. p_id p = postId)
             (\<lambda>p. p\<lparr>p_status := P_cancelled, p_updated_at := now\<rparr>)
             (scheduled_posts db),
         scheduled_post_targets :=
           update_where (cancellable postId) (cancel_write now) (scheduled_post_targets db)\<rparr>,
      \<lparr>http_status = 200,
       http_body = CancelOk postId
         (length (filter (cancellable postId) (scheduled_post_targets db)))\<rparr>)"
proof -
  have c: "(\<lambda>t. t_post_id t = postId \<and> t_status t \<in> set [T_queued, T_retrying, T_publishing])
           = cancellable postId"
    by (auto simp: cancellable_def fun_eq_iff)
  have w: "(\<lambda>t. t\<lparr>t_status := T_cancelled, t_last_error := Some ''Post cancelled by user'',
                   t_updated_at := now\<rparr>) = cancel_write now"
    by (simp add: cancel_write_def fun_eq_iff)
  show ?thesis
    unfolding cancel_scheduled_post_def Let_def c w
    using assms by (simp add: single_def)
qed

lemma cancelled_post_status:
  assumes "filter (\<lambda>p. p_id p = postId) posts = [post]"
    and "\<And>p. p_id (upd p) = p_id p" and "\<And>p. p_status (upd p) = P_cancelled"
  shows "map p_status (filter (\<lambda>p. p_id p = postId) (update_where (\<lambda>p. p_id p = postId) upd posts))
         = [P_cancelled]"
proof -
  have sel: "\<And>r. (p_id (upd r) = postId) = (p_id r = postId)" by (simp add: assms(2))
  show ?thesis
    unfolding filter_update_where [of "\<lambda>p. p_id p = postId" upd, OF sel] assms(1)
    by (simp add: assms(3))
qed

lemma settled_targets_kept:
  "filter (settled postId) (update_where (cancellable postId) (cancel_write now) rows)
   = filter (settled postId) rows"
  by (induction rows) (auto simp: update_where_def settled_def cancellable_def cancel_write_def)

text \<open>
  C5. When the post exists, the requester owns it and its status is neither published
  nor cancelled, either cancellation handler answers 200, leaves the post cancelled,
  rewrites every Target of the post that is queued, retrying or publishing to cancelled
  with the note \<^verbatim>\<open>Post cancelled by user\<close>, and leaves every other Target as it is; in
  particular the Targets of the post that are sent or failed are the same rows after as
  before.
\<close>

theorem C5_cancellation:
  assumes "filter (\<lambda>p. p_id p = postId) (scheduled_posts db) = [post]"
    and "p_user_id post = userId"
    and "p_status post \<noteq> P_published" and "p_status post \<noteq> P_cancelled"
  shows "http_status (snd (scheduling_cancel_scheduled_post db userId postId now)) = 200
       \<and> map p_status (filter (\<lambda>p. p_id p = postId)
            (scheduled_posts (fst (scheduling_cancel_scheduled_post db userId postId now))))
          = [P_cancelled]
       \<and> scheduled_post_targets (fst (scheduling_cancel_scheduled_post db userId postId now))
          = update_where (cancellable postId) (cancel_write now) (scheduled_post_targets db)
       \<and> filter (settled postId)
            (scheduled_post_targets (fst (scheduling_cancel_scheduled_post db userId postId now)))
          = filter (settled postId) (scheduled_post_targets db)
       \<and> http_status (snd (cancel_scheduled_post db userId postId now)) = 200
       \<and> map p_status (filter (\<lambda>p. p_id p = postId)
            (scheduled_posts (fst (cancel_scheduled_post db userId postId now))))
          = [P_cancelled]
       \<and> scheduled_post_targets (fst (cancel_scheduled_post db userId postId now))
          = update_where (cancellable postId) (cancel_write now) (scheduled_post_targets db)
       \<and> filter (settled postId)
            (scheduled_post_targets (fst (cancel_scheduled_post db userId postId now)))
          = filter (settled postId) (scheduled_post_targets db)"
  unfolding scheduling_cancel_effect [OF assms] cancel_effect [OF assms]
  by (simp add: settled_targets_kept cancelled_post_status [OF assms(1)])

theorem C5_cancellation_witness:
  "map p_status (filter (\<lambda>p. p_id p = ''post-1'') (scheduled_posts (fst (scheduling_cancel_scheduled_post
       (ex_db [] P_publishing [ex_target ''t1'' ''twitter'' T_sent 1, ex_target ''t2'' ''linkedin'' T_queued 0])
       ''user-1'' ''post-1'' 7000)))) = [P_cancelled]
   \<and> scheduled_post_targets (fst (scheduling_cancel_scheduled_post
       (ex_db [] P_publishing [ex_target ''t1'' ''twitter'' T_sent 1, ex_target ''t2'' ''linkedin'' T_queued 0])
       ''user-1'' ''post-1'' 7000))
     = [ex_target ''t1'' ''twitter'' T_sent 1,
        (ex_target ''t2'' ''linkedin'' T_queued 0)
          \<lparr>t_status := T_cancelled, t_last_error := Some ''Post cancelled by user'',
           t_updated_at := 7000\<rparr>]
   \<and> scheduled_post_targets (fst (cancel_scheduled_post
       (ex_db [] P_publishing [ex_target ''t1'' ''twitter'' T_sent 1, ex_target ''t2'' ''linkedin'' T_queued 0])
       ''user-1'' ''post-1'' 7000))
     = [ex_target ''t1'' ''twitter'' T_sent 1,
        (ex_target ''t2'' ''linkedin'' T_queued 0)
          \<lparr>t_status := T_cancelled, t_last_error := Some ''Post cancelled by user'',
           t_updated_at := 7000\<rparr>]"
proof -
  let ?db = "ex_db [] P_publishing [ex_target ''t1'' ''twitter'' T_sent 1, ex_target ''t2'' ''linkedin'' T_queued 0]"
  have h: "filter (\<lambda>p. p_id p = ''post-1'') (scheduled_posts ?db) = [ex_post P_publishing]"
    "p_user_id (ex_post P_publishing) = ''user-1''"
    "p_status (ex_post P_publishing) \<noteq> P_published" "p_status (ex_post P_publishing) \<noteq> P_cancelled"
    by (simp_all add: ex_db_def ex_post_def)
  have e: "update_where (cancellable ''post-1'') (cancel_write 7000) (scheduled_post_targets ?db)
     = [ex_target ''t1'' ''twitter'' T_sent 1,
        (ex_target ''t2'' ''linkedin'' T_queued 0)
          \<lparr>t_status := T_cancelled, t_last_error := Some ''Post cancelled by user'',
           t_updated_at := 7000\<rparr>]"
    by (simp add: update_where_def cancellable_def cancel_write_def ex_db_def ex_target_def)
  from C5_cancellation [OF h, of 7000] show ?thesis
    unfolding e by simp
qed

subsection \<open>Creation\<close>

lemma insert_post_Some:
  "insert_post fault row db = Some db1 \<Longrightarrow>
     db1 = db\<lparr>scheduled_posts := scheduled_posts db @ [row]\<rparr>
     \<and> p_id row \<notin> set (map p_id (scheduled_posts db))"
  by (auto simp: insert_post_def split: if_splits)

lemma insert_targets_Some:
  "insert_targets fault rows db = Some db2 \<Longrightarrow>
     db2 = db\<lparr>scheduled_post_targets := scheduled_post_targets db @ rows\<rparr>"
  by (auto simp: insert_targets_def Let_def split: if_splits)

text \<open>The compensating delete puts back the store as it was before the post was inserted.\<close>

lemma delete_after_insert:
  assumes "references_kept db" and "insert_post fault row db = Some db1"
  shows "delete_post (p_id row) db1 = db"
proof -
  from insert_post_Some [OF assms(2)]
  have db1: "db1 = db\<lparr>scheduled_posts := scheduled_posts db @ [row]\<rparr>"
    and fresh: "p_id row \<notin> set (map p_id (scheduled_posts db))" by simp_all
  have other: "p_id p \<noteq> p_id row" if "p \<in> set (scheduled_posts db)" for p
  proof -
    from that have "p_id p \<in> set (map p_id (scheduled_posts db))" by simp
    with fresh show ?thesis by - (rule notI, simp)
  qed
  have posts: "filter (\<lambda>p. p_id p \<noteq> p_id row) (scheduled_posts db) = scheduled_posts db"
    using other by (simp add: filter_id_conv)
  have parent: "t_post_id t \<noteq> p_id row" if "t \<in> set (scheduled_post_targets db)" for t
  proof -
    from assms(1) that have "t_post_id t \<in> set (map p_id (scheduled_posts db))"
      by (simp add: references_kept_def list_all_iff)
    with fresh show ?thesis by - (rule notI, simp)
  qed
  have targets: "filter (\<lambda>t. t_post_id t \<noteq> p_id row) (scheduled_post_targets db)
                 = scheduled_post_targets db"
    using parent by (simp add: filter_id_conv)
  show ?thesis
    unfolding db1 delete_post_def by (simp add: posts targets)
qed

lemma targetInserts_platforms:
  "map t_platform (targetInserts gen body postId now) = platforms body
   \<and> list_all (\<lambda>t. t_post_id t = postId \<and> t_status t = T_queued \<and> t_attempt_count t = 0)
        (targetInserts gen body postId now)"
proof -
  have "map snd (enumerate 0 (platforms body)) = platforms body"
    by (simp add: enumerate_eq_zip)
  then show ?thesis
    by (simp add: targetInserts_def list_all_iff o_def case_prod_beta)
qed

lemma create_tail:
  assumes "references_kept db" and "p_status post = P_queued"
    and "map t_platform targets = platforms body"
    and "list_all (\<lambda>t. t_post_id t = p_id post \<and> t_status t = T_queued) targets"
  shows "all_or_nothing db body
     (case insert_post postFault post db of
        None \<Rightarrow> (db, \<lparr>http_status = 500, http_body = CreateError m1 c1\<rparr>)
      | Some db1 \<Rightarrow>
          (case insert_targets targetsFault targets db1 of
             None \<Rightarrow> (delete_post (p_id post) db1, \<lparr>http_status = 500, http_body = CreateError m2 c2\<rparr>)
           | Some db2 \<Rightarrow> (db2, \<lparr>http_status = 201, http_body = Created post targets\<rparr>)))"
proof (cases "insert_post postFault post db")
  case None
  then show ?thesis by (simp add: all_or_nothing_def)
next
  case (Some db1)
  note p = Some
  show ?thesis
  proof (cases "insert_targets targetsFault targets db1")
    case None
    with p delete_after_insert [OF assms(1) p] show ?thesis
      by (simp add: all_or_nothing_def)
  next
    case (Some db2)
    from insert_post_Some [OF p] insert_targets_Some [OF Some]
    have "db2 = db\<lparr>scheduled_posts := scheduled_posts db @ [post],
                      scheduled_post_targets := scheduled_post_targets db @ targets\<rparr>"
      by simp
    with p Some assms(2-4) show ?thesis
      by (simp add: all_or_nothing_def)
  qed
qed

lemma targetInserts_rows:
  "map t_platform (targetInserts gen body postId now) = platforms body"
  "list_all (\<lambda>t. t_post_id t = postId \<and> t_status t = T_queued) (targetInserts gen body postId now)"
  using targetInserts_platforms [of gen body postId now]
  by (simp_all add: list_all_iff)

text \<open>A request that names a platform twice is rejected by \<^verbatim>\<open>UNIQUE(post_id, platform)\<close>.\<close>

lemma targetInserts_pairs:
  "map (\<lambda>t. (t_post_id t, t_platform t)) (targetInserts gen body postId now)
   = map (\<lambda>p. (postId, p)) (platforms body)"
proof -
  have "map (\<lambda>x. (postId, snd x)) (enumerate n ps) = map (\<lambda>p. (postId, p)) ps" for n and ps :: "Platform list"
    by (induction ps arbitrary: n) simp_all
  then show ?thesis
    by (simp add: targetInserts_def o_def case_prod_beta)
qed

lemma insert_targets_duplicate:
  assumes "\<not> distinct (platforms body)"
  shows "insert_targets fault (targetInserts gen body postId now) db1 = None"
proof -
  have "distinct (map (\<lambda>p. (postId, p)) (platforms body)) = distinct (platforms body)"
    by (simp add: distinct_map inj_on_def)
  with assms have "\<not> distinct (map (\<lambda>t. (t_post_id t, t_platform t)) (targetInserts gen body postId now))"
    by (simp add: targetInserts_pairs)
  then show ?thesis
    by (simp add: insert_targets_def Let_def)
qed

lemma scheduling_duplicate_platform_rejected:
  assumes "\<not> distinct (platforms body)"
  shows "\<exists>m c. http_body (snd (scheduling_create_scheduled_post gen postFault targetsFault db userId body now))
                = CreateError m c"
  by (simp add: scheduling_create_scheduled_post_def Let_def insert_targets_duplicate [OF assms]
      split: option.splits)

lemma duplicate_platform_rejected:
  assumes "\<not> distinct (platforms body)"
  shows "\<exists>m c. http_body (snd (create_scheduled_post gen postFault targetsFault db userId body now))
                = CreateError m c"
  by (simp add: create_scheduled_post_def Let_def insert_targets_duplicate [OF assms]
      split: option.splits)

text \<open>
  C4. On a store whose Targets all have their parent post, every creation request to
  either handler, whatever the inserts do, ends in one of two ways: the response is 201
  and the store holds, beyond what it held, the new post and one Target of it per
  requested platform; or the response is an error and the store is exactly as it was.
  In particular, when the post has been inserted and the insert of the Targets fails,
  the delete that the handler issues before it returns the error puts the store back as
  it was, so no post without Targets is left.
\<close>

theorem C4_creation_atomic:
  assumes "references_kept db"
  shows "all_or_nothing db body
           (scheduling_create_scheduled_post gen postFault targetsFault db userId body now)
       \<and> all_or_nothing db body
           (create_scheduled_post gen postFault targetsFault db userId body now)
       \<and> (insert_post postFault post db = Some db1 \<longrightarrow> delete_post (p_id post) db1 = db)"
proof (intro conjI impI)
  let ?post = "\<lparr>p_id = gen 0, p_user_id = userId, p_content_raw = contentRaw body,
                 p_scheduled_at = scheduledAt body, p_timezone = timezone body,
                 p_status = P_queued,
                 p_media_manifest = (case mediaAssetIds body of None \<Rightarrow> [] | Some ids \<Rightarrow> ids),
                 p_metadata =
                   [(''variants'',
                     JObject (map (\<lambda>(k, v). (k, JString v))
                                (case variants body of None \<Rightarrow> [] | Some vs \<Rightarrow> vs)))],
                 p_created_at = now, p_updated_at = now, p_published_at = None\<rparr>"
  have tail: "all_or_nothing db body
     (case insert_post postFault ?post db of
        None \<Rightarrow> (db, \<lparr>http_status = 500,
                       http_body = CreateError ''Internal server error'' (Some ''INTERNAL_ERROR'')\<rparr>)
      | Some db1 \<Rightarrow>
          (case insert_targets targetsFault (targetInserts gen body (p_id ?post) now) db1 of
             None \<Rightarrow> (delete_post (p_id ?post) db1,
                       \<lparr>http_status = 500,
                        http_body = CreateError ''Internal server error'' (Some ''INTERNAL_ERROR'')\<rparr>)
           | Some db2 \<Rightarrow> (db2, \<lparr>http_status = 201,
                                 http_body = Created ?post (targetInserts gen body (p_id ?post) now)\<rparr>)))"
    by (rule create_tail [OF assms]) (simp_all add: targetInserts_rows)
  have rejected: "all_or_nothing db body (db, \<lparr>http_status = 400, http_body = CreateError m c\<rparr>)" for m c
    by (simp add: all_or_nothing_def)
  show "all_or_nothing db body
           (scheduling_create_scheduled_post gen postFault targetsFault db userId body now)"
    unfolding scheduling_create_scheduled_post_def Let_def
    using tail rejected by (simp only: split: if_split) simp
next
  let ?post = "\<lparr>p_id = gen 0, p_user_id = userId, p_content_raw = contentRaw body,
                 p_scheduled_at = scheduledAt body, p_timezone = timezone body,
                 p_status = P_queued, p_media_manifest = [], p_metadata = [],
                 p_created_at = now, p_updated_at = now, p_published_at = None\<rparr>"
  have tail: "all_or_nothing db body
     (case insert_post postFault ?post db of
        None \<Rightarrow> (db, \<lparr>http_status = 500, http_body = CreateError ''Failed to create post'' None\<rparr>)
      | Some db1 \<Rightarrow>
          (case insert_targets targetsFault (targetInserts gen body (p_id ?post) now) db1 of
             None \<Rightarrow> (delete_post (p_id ?post) db1,
                       \<lparr>http_status = 500, http_body = CreateError ''Failed to create targets'' None\<rparr>)
           | Some db2 \<Rightarrow> (db2, \<lparr>http_status = 201,
                                 http_body = Created ?post (targetInserts gen body (p_id ?post) now)\<rparr>)))"
    by (rule create_tail [OF assms]) (simp_all add: targetInserts_rows)
  have rejected: "all_or_nothing db body (db, \<lparr>http_status = 400, http_body = CreateError m c\<rparr>)" for m c
    by (simp add: all_or_nothing_def)
  show "all_or_nothing db body
           (create_scheduled_post gen postFault targetsFault db userId body now)"
    unfolding create_scheduled_post_def Let_def
    using tail rejected by (simp only: split: if_split) simp
next
  assume "insert_post postFault post db = Some db1"
  with assms show "delete_post (p_id post) db1 = db" by (rule delete_after_insert)
qed

theorem C4_creation_atomic_witness:
  "fst (scheduling_create_scheduled_post ex_gen False False
          (ex_db [ex_account ''twitter''] P_publishing [ex_target ''t1'' ''twitter'' T_sent 1])
          ''user-1'' (ex_request [''twitter'', ''twitter'']) 500)
     = ex_db [ex_account ''twitter''] P_publishing [ex_target ''t1'' ''twitter'' T_sent 1]
   \<and> fst (create_scheduled_post ex_gen False False
          (ex_db [ex_account ''twitter''] P_publishing [ex_target ''t1'' ''twitter'' T_sent 1])
          ''user-1'' (ex_request [''twitter'', ''twitter'']) 500)
     = ex_db [ex_account ''twitter''] P_publishing [ex_target ''t1'' ''twitter'' T_sent 1]"
proof -
  let ?db = "ex_db [ex_account ''twitter''] P_publishing [ex_target ''t1'' ''twitter'' T_sent 1]"
  let ?body = "ex_request [''twitter'', ''twitter'']"
  have h: "references_kept ?db"
    by (simp add: references_kept_def ex_db_def ex_target_def ex_post_def)
  have d: "\<not> distinct (platforms ?body)"
    by (simp add: ex_request_def)
  note T = C4_creation_atomic [OF h, of ?body ex_gen False False "''user-1''" 500]
  have a: "fst (scheduling_create_scheduled_post ex_gen False False ?db ''user-1'' ?body 500) = ?db"
  proof -
    obtain db' resp where
      o: "scheduling_create_scheduled_post ex_gen False False ?db ''user-1'' ?body 500 = (db', resp)"
      by (rule prod.exhaust)
    from T have "all_or_nothing ?db ?body (db', resp)" unfolding o by (rule conjunct1)
    moreover from scheduling_duplicate_platform_rejected [OF d, of ex_gen False False ?db "''user-1''" 500]
    obtain m c where "http_body resp = CreateError m c"
      unfolding o by auto
    ultimately have "db' = ?db" by (simp add: all_or_nothing_def)
    then show ?thesis unfolding o by simp
  qed
  have b: "fst (create_scheduled_post ex_gen False False ?db ''user-1'' ?body 500) = ?db"
  proof -
    obtain db' resp where
      o: "create_scheduled_post ex_gen False False ?db ''user-1'' ?body 500 = (db', resp)"
      by (rule prod.exhaust)
    from T [THEN conjunct2, THEN conjunct1]
    have "all_or_nothing ?db ?body (db', resp)" unfolding o .
    moreover from duplicate_platform_rejected [OF d, of ex_gen False False ?db "''user-1''" 500]
    obtain m c where "http_body resp = CreateError m c"
      unfolding o by auto
    ultimately have "db' = ?db" by (simp add: all_or_nothing_def)
    then show ?thesis unfolding o by simp
  qed
  from a b show ?thesis by (rule conjI)
qed

text \<open>
  A request for two platforms that goes through: the store gets the post and its two
  queued Targets, and the response is 201.
\<close>

lemma ex_created:
  "create_scheduled_post ex_gen False False
      (ex_db [ex_account ''twitter''] P_publishing [ex_target ''t1'' ''twitter'' T_sent 1])
      ''user-1'' (ex_request [''twitter'', ''linkedin'']) 500
   = ((ex_db [ex_account ''twitter''] P_publishing [ex_target ''t1'' ''twitter'' T_sent 1])
        \<lparr>scheduled_posts := [ex_post P_publishing,
            \<lparr>p_id = ''new-'', p_user_id = ''user-1'', p_content_raw = ''hello'',
             p_scheduled_at = 9000, p_timezone = ''UTC'', p_status = P_queued,
             p_media_manifest = [], p_metadata = [], p_created_at = 500, p_updated_at = 500,
             p_published_at = None\<rparr>],
          scheduled_post_targets := [ex_target ''t1'' ''twitter'' T_sent 1,
            (ex_target ''new-i'' ''twitter'' T_queued 0)
              \<lparr>t_post_id := ''new-'', t_created_at := 500, t_updated_at := 500\<rparr>,
            (ex_target ''new-ii'' ''linkedin'' T_queued 0)
              \<lparr>t_post_id := ''new-'', t_created_at := 500, t_updated_at := 500\<rparr>]\<rparr>,
      \<lparr>http_status = 201,
       http_body = Created
            \<lparr>p_id = ''new-'', p_user_id = ''user-1'', p_content_raw = ''hello'',
             p_scheduled_at = 9000, p_timezone = ''UTC'', p_status = P_queued,
             p_media_manifest = [], p_metadata = [], p_created_at = 500, p_updated_at = 500,
             p_published_at = None\<rparr>
            [(ex_target ''new-i'' ''twitter'' T_queued 0)
              \<lparr>t_post_id := ''new-'', t_created_at := 500, t_updated_at := 500\<rparr>,
             (ex_target ''new-ii'' ''linkedin'' T_queued 0)
              \<lparr>t_post_id := ''new-'', t_created_at := 500, t_updated_at := 500\<rparr>]\<rparr>)"
proof -
  have g: "ex_gen 0 = ''new-''" "ex_gen (Suc 0) = ''new-i''" "ex_gen (Suc (Suc 0)) = ''new-ii''"
    by (simp_all add: ex_gen_def)
  have rows: "targetInserts ex_gen (ex_request [''twitter'', ''linkedin'']) ''new-'' 500
     = [(ex_target ''new-i'' ''twitter'' T_queued 0)
              \<lparr>t_post_id := ''new-'', t_created_at := 500, t_updated_at := 500\<rparr>,
        (ex_target ''new-ii'' ''linkedin'' T_queued 0)
              \<lparr>t_post_id := ''new-'', t_created_at := 500, t_updated_at := 500\<rparr>]"
    by (simp add: targetInserts_def ex_request_def ex_target_def content_final_for_def g)
  have body: "contentRaw (ex_request [''twitter'', ''linkedin'']) = ''hello''"
    "scheduledAt (ex_request [''twitter'', ''linkedin'']) = 9000"
    "timezone (ex_request [''twitter'', ''linkedin'']) = ''UTC''"
    "platforms (ex_request [''twitter'', ''linkedin'']) = [''twitter'', ''linkedin'']"
    by (simp_all add: ex_request_def)
  show ?thesis
    unfolding create_scheduled_post_def Let_def
    by (simp add: CreatePostSchema_def body g rows insert_post_def insert_targets_def
        ex_db_def ex_post_def ex_target_def PlatformSchema_def Let_def)
qed

subsection \<open>Query for fresh work\<close>

lemma set_targets_with_post:
  "set (targets_with_post db) =
     {(t, p). t \<in> set (scheduled_post_targets db) \<and> p \<in> set (scheduled_posts db)
              \<and> p_id p = t_post_id t}"
  by (auto simp: targets_with_post_def)

text \<open>
  The query of \<^verbatim>\<open>scheduling/schedule-worker/index.ts\<close>: only due rows, at most 50,
  in ascending order of \<^verbatim>\<open>scheduled_at\<close>, all of them when they are at most 50, and
  otherwise none that is due later than a row left out.
\<close>

lemma scheduling_queuedTargets_ordered:
  "set (scheduling_queuedTargets db now)
     \<subseteq> {(t, p). t \<in> set (scheduled_post_targets db) \<and> p \<in> set (scheduled_posts db)
                 \<and> p_id p = t_post_id t
                 \<and> t_status t = T_queued \<and> p_status p = P_queued \<and> p_scheduled_at p \<le> now}"
  "length (scheduling_queuedTargets db now) \<le> 50"
  "sorted (map (\<lambda>(t, p). p_scheduled_at p) (scheduling_queuedTargets db now))"
  "length (filter (\<lambda>(t, p). t_status t = T_queued \<and> p_status p = P_queued \<and> p_scheduled_at p \<le> now)
             (targets_with_post db)) \<le> 50 \<Longrightarrow>
   set (scheduling_queuedTargets db now)
     = {(t, p). t \<in> set (scheduled_post_targets db) \<and> p \<in> set (scheduled_posts db)
                 \<and> p_id p = t_post_id t
                 \<and> t_status t = T_queued \<and> p_status p = P_queued \<and> p_scheduled_at p \<le> now}"
proof -
  let ?due = "\<lambda>(t, p). t_status t = T_queued \<and> p_status p = P_queued \<and> p_scheduled_at p \<le> now"
  let ?key = "\<lambda>(t :: DbScheduledPostTarget, p). p_scheduled_at p"
  let ?sorted = "sort_key ?key (filter ?due (targets_with_post db))"
  have s: "set ?sorted = {x \<in> set (targets_with_post db). ?due x}" by simp
  have "set (take BATCH_SIZE ?sorted) \<subseteq> set ?sorted" by (rule set_take_subset)
  then show "set (scheduling_queuedTargets db now)
     \<subseteq> {(t, p). t \<in> set (scheduled_post_targets db) \<and> p \<in> set (scheduled_posts db)
                 \<and> p_id p = t_post_id t
                 \<and> t_status t = T_queued \<and> p_status p = P_queued \<and> p_scheduled_at p \<le> now}"
    unfolding scheduling_queuedTargets_def s set_targets_with_post by auto
  show "length (scheduling_queuedTargets db now) \<le> 50"
    by (simp add: scheduling_queuedTargets_def BATCH_SIZE_def)
  have "sorted (map ?key ?sorted)" by (rule sorted_sort_key)
  then have "sorted (take BATCH_SIZE (map ?key ?sorted))" by (rule sorted_wrt_take)
  then show "sorted (map (\<lambda>(t, p). p_scheduled_at p) (scheduling_queuedTargets db now))"
    by (simp add: scheduling_queuedTargets_def take_map)
  assume "length (filter ?due (targets_with_post db)) \<le> 50"
  then have "take BATCH_SIZE ?sorted = ?sorted" by (simp add: BATCH_SIZE_def)
  then have "set (scheduling_queuedTargets db now) = set ?sorted"
    by (simp add: scheduling_queuedTargets_def)
  also have "\<dots> = {x \<in> set (targets_with_post db). ?due x}" by (rule s)
  also have "\<dots> = {(t, p). t \<in> set (scheduled_post_targets db) \<and> p \<in> set (scheduled_posts db)
                 \<and> p_id p = t_post_id t
                 \<and> t_status t = T_queued \<and> p_status p = P_queued \<and> p_scheduled_at p \<le> now}"
    unfolding set_targets_with_post by auto
  finally show "set (scheduling_queuedTargets db now)
     = {(t, p). t \<in> set (scheduled_post_targets db) \<and> p \<in> set (scheduled_posts db)
                 \<and> p_id p = t_post_id t
                 \<and> t_status t = T_queued \<and> p_status p = P_queued \<and> p_scheduled_at p \<le> now}" .
qed

lemma scheduling_queuedTargets_earliest:
  assumes "x \<in> set (scheduling_queuedTargets db now)"
    and "y \<in> set (filter (\<lambda>(t, p). t_status t = T_queued \<and> p_status p = P_queued \<and> p_scheduled_at p \<le> now)
                    (targets_with_post db))"
    and "p_scheduled_at (snd y) < p_scheduled_at (snd x)"
  shows "y \<in> set (scheduling_queuedTargets db now)"
proof -
  let ?due = "\<lambda>(t, p). t_status t = T_queued \<and> p_status p = P_queued \<and> p_scheduled_at p \<le> now"
  let ?key = "\<lambda>(t :: DbScheduledPostTarget, p). p_scheduled_at p"
  let ?sorted = "sort_key ?key (filter ?due (targets_with_post db))"
  have "sorted (map ?key (take BATCH_SIZE ?sorted @ drop BATCH_SIZE ?sorted))"
    by (simp only: append_take_drop_id) (rule sorted_sort_key)
  then have "sorted (map ?key (take BATCH_SIZE ?sorted) @ map ?key (drop BATCH_SIZE ?sorted))"
    by (simp only: map_append)
  then have "\<forall>i\<in>set (map ?key (take BATCH_SIZE ?sorted)).
               \<forall>j\<in>set (map ?key (drop BATCH_SIZE ?sorted)). i \<le> j"
    by (simp only: sorted_append) simp
  then have le: "?key a \<le> ?key b"
    if "a \<in> set (take BATCH_SIZE ?sorted)" "b \<in> set (drop BATCH_SIZE ?sorted)" for a b
    using that by (simp only: set_map) blast
  from assms(2) have "y \<in> set ?sorted" by simp
  then have "y \<in> set (take BATCH_SIZE ?sorted @ drop BATCH_SIZE ?sorted)"
    by (simp only: append_take_drop_id)
  then have "y \<in> set (take BATCH_SIZE ?sorted) \<or> y \<in> set (drop BATCH_SIZE ?sorted)"
    by (simp only: set_append Un_iff)
  then show ?thesis
  proof
    assume "y \<in> set (take BATCH_SIZE ?sorted)"
    then show ?thesis by (simp add: scheduling_queuedTargets_def)
  next
    assume "y \<in> set (drop BATCH_SIZE ?sorted)"
    moreover from assms(1) have "x \<in> set (take BATCH_SIZE ?sorted)"
      by (simp add: scheduling_queuedTargets_def)
    ultimately have "?key x \<le> ?key y" by (intro le)
    with assms(3) show ?thesis by (simp add: case_prod_beta)
  qed
qed

text \<open>
  The query of \<^verbatim>\<open>schedule-worker/index.ts\<close>: only due rows, at most 50, in the order
  of the store.
\<close>

lemma queuedTargets_selection:
  "set (queuedTargets db now)
     \<subseteq> {(t, p). t \<in> set (scheduled_post_targets db) \<and> p \<in> set (scheduled_posts db)
                 \<and> p_id p = t_post_id t
                 \<and> t_status t = T_queued \<and> p_status p = P_queued \<and> p_scheduled_at p \<le> now}"
  "length (queuedTargets db now) \<le> 50"
proof -
  let ?due = "\<lambda>(t, p). t_status t = T_queued \<and> p_status p = P_queued \<and> p_scheduled_at p \<le> now"
  have "set (take BATCH_SIZE (filter ?due (targets_with_post db)))
          \<subseteq> set (filter ?due (targets_with_post db))" by (rule set_take_subset)
  then show "set (queuedTargets db now)
     \<subseteq> {(t, p). t \<in> set (scheduled_post_targets db) \<and> p \<in> set (scheduled_posts db)
                 \<and> p_id p = t_post_id t
                 \<and> t_status t = T_queued \<and> p_status p = P_queued \<and> p_scheduled_at p \<le> now}"
    unfolding queuedTargets_def set_filter set_targets_with_post by auto
  show "length (queuedTargets db now) \<le> 50"
    by (simp add: queuedTargets_def BATCH_SIZE_def)
qed

text \<open>
  C9 on a store where it fails. Two Targets are due; the parent of the first row is
  scheduled at 2000, that of the second at 1000. The query of
  \<^verbatim>\<open>schedule-worker/index.ts\<close> returns them in the order of the store, the later one
  first, where the claim says earliest due first; the query of
  \<^verbatim>\<open>scheduling/schedule-worker/index.ts\<close>, which has the \<^verbatim>\<open>.order\<close> clause, returns
  the earlier one first.
\<close>

theorem C9_flat_query_unordered:
  "map (\<lambda>(t, p). (t_id t, p_scheduled_at p)) (queuedTargets ex_late_first 5000)
     = [(''t2'', 2000), (''t1'', 1000)]
   \<and> map (\<lambda>(t, p). (t_id t, p_scheduled_at p)) (scheduling_queuedTargets ex_late_first 5000)
     = [(''t1'', 1000), (''t2'', 2000)]"
  by code_simp

end
